theory Spec2Isabelle
  imports Main "HOL-Library.Sublist" "HOL-Library.Multiset"
begin

section \<open>Strings as the linter uses them\<close>

text \<open>
  A Go string is a sequence of bytes, and so is a \<^typ>\<open>string\<close> here. The functions of
  package \<^verbatim>\<open>strings\<close> keep their names. Text beyond ASCII is UTF-8, and the models decode
  it as Go does; only \<^verbatim>\<open>ToLower\<close> is exact on ASCII text alone, and says so.
\<close>

definition dq :: char where
  "dq = CHR 0x22"

definition HasPrefix :: "string \<Rightarrow> string \<Rightarrow> bool" where
  "HasPrefix s p = prefix p s"

definition HasSuffix :: "string \<Rightarrow> string \<Rightarrow> bool" where
  "HasSuffix s p = suffix p s"

text \<open>\<^verbatim>\<open>strings.Contains\<close>: the substring starts at some position of the string.\<close>

fun Contains :: "string \<Rightarrow> string \<Rightarrow> bool" where
  "Contains [] sub = (sub = [])"
| "Contains (c # cs) sub = (prefix sub (c # cs) \<or> Contains cs sub)"

definition isLowerAZ :: "char \<Rightarrow> bool" where
  "isLowerAZ c = (let n = (of_char c :: nat) in 97 \<le> n \<and> n \<le> 122)"

definition isUpperAZ :: "char \<Rightarrow> bool" where
  "isUpperAZ c = (let n = (of_char c :: nat) in 65 \<le> n \<and> n \<le> 90)"

definition isDigit09 :: "char \<Rightarrow> bool" where
  "isDigit09 c = (let n = (of_char c :: nat) in 48 \<le> n \<and> n \<le> 57)"

definition isASCII :: "char \<Rightarrow> bool" where
  "isASCII c = ((of_char c :: nat) < 128)"

definition upperAZ :: "char \<Rightarrow> char" where
  "upperAZ c =
     (case map_of (zip ''abcdefghijklmnopqrstuvwxyz'' ''ABCDEFGHIJKLMNOPQRSTUVWXYZ'') c of
        Some u \<Rightarrow> u
      | None \<Rightarrow> c)"

definition lowerAZ :: "char \<Rightarrow> char" where
  "lowerAZ c =
     (case map_of (zip ''ABCDEFGHIJKLMNOPQRSTUVWXYZ'' ''abcdefghijklmnopqrstuvwxyz'') c of
        Some l \<Rightarrow> l
      | None \<Rightarrow> c)"

text \<open>
  \<^verbatim>\<open>strings.ToUpper\<close> on a string of one byte, which is how the linter calls it
  (\<^verbatim>\<open>msg[:1]\<close>, \<^verbatim>\<open>fn.Name.Name[0:1]\<close>). An ASCII byte is mapped to its upper case. A byte
  from 0x80 on is not a valid UTF-8 string by itself: Go reads it as the rune U+FFFD and
  writes that rune's three bytes.
\<close>

definition ToUpper1 :: "char \<Rightarrow> string" where
  "ToUpper1 c = (if isASCII c then [upperAZ c] else [CHR 0xEF, CHR 0xBF, CHR 0xBD])"

text \<open>
  \<^verbatim>\<open>strings.ToLower\<close> on a whole string: ASCII letters are lowered, every other byte is
  kept (Go also lowers the letters beyond ASCII).
\<close>

definition ToLower :: "string \<Rightarrow> string" where
  "ToLower s = map lowerAZ s"

text \<open>
  The runes \<^verbatim>\<open>unicode.IsSpace\<close> accepts, each as its UTF-8 bytes: tab, line feed, vertical
  tab, form feed, carriage return and space; U+0085 and U+00A0; U+1680, U+2000 to U+200A,
  U+2028, U+2029, U+202F, U+205F and U+3000 (the property White_Space of Unicode).
\<close>

definition spaceRunes :: "string list" where
  "spaceRunes =
     [[CHR 0x09], [CHR 0x0A], [CHR 0x0B], [CHR 0x0C], [CHR 0x0D], [CHR 0x20],
      [CHR 0xC2, CHR 0x85], [CHR 0xC2, CHR 0xA0], [CHR 0xE1, CHR 0x9A, CHR 0x80],
      [CHR 0xE2, CHR 0x80, CHR 0x80], [CHR 0xE2, CHR 0x80, CHR 0x81],
      [CHR 0xE2, CHR 0x80, CHR 0x82], [CHR 0xE2, CHR 0x80, CHR 0x83],
      [CHR 0xE2, CHR 0x80, CHR 0x84], [CHR 0xE2, CHR 0x80, CHR 0x85],
      [CHR 0xE2, CHR 0x80, CHR 0x86], [CHR 0xE2, CHR 0x80, CHR 0x87],
      [CHR 0xE2, CHR 0x80, CHR 0x88], [CHR 0xE2, CHR 0x80, CHR 0x89],
      [CHR 0xE2, CHR 0x80, CHR 0x8A], [CHR 0xE2, CHR 0x80, CHR 0xA8],
      [CHR 0xE2, CHR 0x80, CHR 0xA9], [CHR 0xE2, CHR 0x80, CHR 0xAF],
      [CHR 0xE2, CHR 0x81, CHR 0x9F], [CHR 0xE3, CHR 0x80, CHR 0x80]]"

text \<open>The text without the longest run, at its start, of members of a list of byte strings.\<close>

function trimPrefixes :: "string list \<Rightarrow> string \<Rightarrow> string" where
  "trimPrefixes es s =
     (case find (\<lambda>e. e \<noteq> [] \<and> prefix e s) es of
        None \<Rightarrow> s
      | Some e \<Rightarrow> trimPrefixes es (drop (length e) s))"
  by pat_completeness auto

termination
proof (relation "measure (\<lambda>(es, s). length s)")
  show "wf (measure (\<lambda>(es, s). length s))"
    by simp
next
  fix es :: "string list" and s e :: string
  assume "find (\<lambda>e. e \<noteq> [] \<and> prefix e s) es = Some e"
  then have "e \<noteq> [] \<and> prefix e s"
    by (auto simp: find_Some_iff)
  then have "length (drop (length e) s) < length s"
    by (auto simp: prefix_def)
  then show "((es, drop (length e) s), (es, s)) \<in> measure (\<lambda>(es, s). length s)"
    by simp
qed

declare trimPrefixes.simps [simp del]

text \<open>
  \<^verbatim>\<open>strings.TrimSpace\<close>: the white-space runes are cut from the start, then from the end.
  A rune stands at the start, or at the end, of a text exactly when its bytes do.
\<close>

definition TrimSpace :: "string \<Rightarrow> string" where
  "TrimSpace s = rev (trimPrefixes (map rev spaceRunes) (rev (trimPrefixes spaceRunes s)))"

text \<open>
  \<^verbatim>\<open>utf8.DecodeRuneInString\<close>, the rune alone: the first rune of the text, and \<open>None\<close> where
  Go gives U+FFFD because the text is empty or does not begin with a valid encoding.
\<close>

definition byteIn :: "nat \<Rightarrow> nat \<Rightarrow> char \<Rightarrow> bool" where
  "byteIn lo hi c = (lo \<le> (of_char c :: nat) \<and> (of_char c :: nat) \<le> hi)"

fun DecodeRune :: "string \<Rightarrow> nat option" where
  "DecodeRune [] = None"
| "DecodeRune (c0 # rest) =
     (let b0 = (of_char c0 :: nat) in
      if b0 < 0x80 then Some b0
      else if 0xC2 \<le> b0 \<and> b0 \<le> 0xDF then
        (case rest of
           c1 # _ \<Rightarrow>
             if byteIn 0x80 0xBF c1 then Some ((b0 - 0xC0) * 64 + (of_char c1 - 0x80)) else None
         | _ \<Rightarrow> None)
      else if 0xE0 \<le> b0 \<and> b0 \<le> 0xEF then
        (case rest of
           c1 # c2 # _ \<Rightarrow>
             if byteIn (if b0 = 0xE0 then 0xA0 else 0x80) (if b0 = 0xED then 0x9F else 0xBF) c1
                \<and> byteIn 0x80 0xBF c2
             then Some ((b0 - 0xE0) * 4096 + (of_char c1 - 0x80) * 64 + (of_char c2 - 0x80))
             else None
         | _ \<Rightarrow> None)
      else if 0xF0 \<le> b0 \<and> b0 \<le> 0xF4 then
        (case rest of
           c1 # c2 # c3 # _ \<Rightarrow>
             if byteIn (if b0 = 0xF0 then 0x90 else 0x80) (if b0 = 0xF4 then 0x8F else 0xBF) c1
                \<and> byteIn 0x80 0xBF c2 \<and> byteIn 0x80 0xBF c3
             then Some ((b0 - 0xF0) * 262144 + (of_char c1 - 0x80) * 4096
                        + (of_char c2 - 0x80) * 64 + (of_char c3 - 0x80))
             else None
         | _ \<Rightarrow> None)
      else None)"

text \<open>
  \<^verbatim>\<open>unicode.IsUpper\<close>. Below U+0080 the upper-case letters are A to Z. From there on they
  are a table of the Go release the linter is built with: the table is the argument
  \<open>upper\<close> of every function that asks, and the linter is modelled for any table.
\<close>

definition IsUpper :: "(nat \<Rightarrow> bool) \<Rightarrow> nat \<Rightarrow> bool" where
  "IsUpper upper r = (if r < 0x80 then 0x41 \<le> r \<and> r \<le> 0x5A else upper r)"

text \<open>
  \<^verbatim>\<open>ast.IsExported\<close>: the first rune of the name is an upper-case letter. U+FFFD, which
  stands for an empty name or an invalid encoding, is none.
\<close>

definition IsExported :: "(nat \<Rightarrow> bool) \<Rightarrow> string \<Rightarrow> bool" where
  "IsExported upper name = (case DecodeRune name of None \<Rightarrow> False | Some r \<Rightarrow> IsUpper upper r)"

text \<open>The upper-case letters of Latin-1 beyond ASCII, a table for the examples.\<close>

definition latin1Upper :: "nat \<Rightarrow> bool" where
  "latin1Upper r = ((0xC0 \<le> r \<and> r \<le> 0xD6) \<or> (0xD8 \<le> r \<and> r \<le> 0xDE))"

text \<open>The verb \<^verbatim>\<open>%d\<close> of \<^verbatim>\<open>fmt.Sprintf\<close> on a line number, which is never negative.\<close>

definition digit :: "nat \<Rightarrow> char" where
  "digit n = ''0123456789'' ! n"

fun itoa :: "nat \<Rightarrow> string" where
  "itoa n = (if n < 10 then [digit n] else itoa (n div 10) @ [digit (n mod 10)])"

declare itoa.simps [simp del]

text \<open>
  The verb \<^verbatim>\<open>%q\<close> on a declared name. A name is made of letters, digits and underscores,
  which \<^verbatim>\<open>strconv.Quote\<close> leaves as they are between the two quotes.
\<close>

definition Quote :: "string \<Rightarrow> string" where
  "Quote s = [dq] @ s @ [dq]"

subsection \<open>The regular expressions\<close>

text \<open>
  An unanchored \<^verbatim>\<open>MatchString\<close> tries the pattern at every position of the text.
\<close>

fun MatchAnywhere :: "(string \<Rightarrow> bool) \<Rightarrow> string \<Rightarrow> bool" where
  "MatchAnywhere p [] = p []"
| "MatchAnywhere p (c # cs) = (p (c # cs) \<or> MatchAnywhere p cs)"

definition isAlnum :: "char \<Rightarrow> bool" where
  "isAlnum c = (isUpperAZ c \<or> isLowerAZ c \<or> isDigit09 c)"

text \<open>\<^verbatim>\<open>^[A-Z][A-Za-z0-9]*$\<close>\<close>

definition exportedMixedCaps :: "string \<Rightarrow> bool" where
  "exportedMixedCaps s = (case s of [] \<Rightarrow> False | c # cs \<Rightarrow> isUpperAZ c \<and> list_all isAlnum cs)"

text \<open>\<^verbatim>\<open>^[a-z][A-Za-z0-9]*$\<close>\<close>

definition unexportedMixedCaps :: "string \<Rightarrow> bool" where
  "unexportedMixedCaps s = (case s of [] \<Rightarrow> False | c # cs \<Rightarrow> isLowerAZ c \<and> list_all isAlnum cs)"

text \<open>\<^verbatim>\<open>_\<close>\<close>

definition snakeCase :: "string \<Rightarrow> bool" where
  "snakeCase s = MatchAnywhere (\<lambda>r. prefix ''_'' r) s"

text \<open>\<^verbatim>\<open>Id|Url|Http\<close>\<close>

definition badAcronyms :: "string \<Rightarrow> bool" where
  "badAcronyms s = MatchAnywhere (\<lambda>r. prefix ''Id'' r \<or> prefix ''Url'' r \<or> prefix ''Http'' r) s"

text \<open>
  \<^verbatim>\<open>"(.*?)"\<close> in \<^verbatim>\<open>extractStringLiteral\<close>: the leftmost match starts at the first quote
  that is followed, before any line feed, by another quote; the lazy group is the text
  between the two. The function returns the group, and the empty string when nothing
  matches.
\<close>

fun extractStringLiteral :: "string \<Rightarrow> string" where
  "extractStringLiteral [] = []"
| "extractStringLiteral (c # cs) =
     (if c = dq then
        (let body = takeWhile (\<lambda>x. x \<noteq> dq \<and> x \<noteq> CHR 0x0A) cs in
         case drop (length body) cs of
           [] \<Rightarrow> extractStringLiteral cs
         | d # _ \<Rightarrow> if d = dq then body else extractStringLiteral cs)
      else extractStringLiteral cs)"

text \<open>
  \<^verbatim>\<open>^t\.Log\((.*)\)$\<close> and \<^verbatim>\<open>^t\.Logf\((.*)\)$\<close>: the whole text is the call, the greedy
  group is what stands between the opening parenthesis and the last character, and the dot
  matches no line feed. The result is the group of \<^verbatim>\<open>FindStringSubmatch\<close>.
\<close>

definition callRe :: "string \<Rightarrow> string \<Rightarrow> string option" where
  "callRe opening s =
     (if prefix opening s \<and> suffix '')'' s \<and> length opening + 1 \<le> length s \<and> CHR 0x0A \<notin> set s
      then Some (take (length s - length opening - 1) (drop (length opening) s))
      else None)"

definition tLogRe :: "string \<Rightarrow> string option" where
  "tLogRe s = callRe ''t.Log('' s"

definition tLogfRe :: "string \<Rightarrow> string option" where
  "tLogfRe s = callRe ''t.Logf('' s"

section \<open>The syntax tree\<close>

text \<open>
  The nodes of \<^verbatim>\<open>go/ast\<close> that can stand in a function body or in a parameter type. The
  kinds the linter asks for have a constructor of their own; every other kind is
  \<open>OtherNode\<close> with its children in the order \<^verbatim>\<open>ast.Walk\<close> visits them. A declaration
  inside a body is \<open>LocalGenDecl\<close> with specs \<open>LocalValueSpec\<close> (names, type, values).
\<close>

datatype node =
    Ident string
  | SelectorExpr node string
  | StarExpr node
  | ArrayType "node option" node
  | StructType "node list"
  | CompositeLit "node option" "node list"
  | CallExpr node "node list"
  | LocalValueSpec "string list" "node option" "node list"
  | LocalGenDecl "node list"
  | DeclStmt node
  | AssignStmt "node list" "node list"
  | RangeStmt "node option" "node option" node node
  | BlockStmt "node list"
  | OtherNode "node list"

text \<open>
  The nodes \<^verbatim>\<open>ast.Inspect\<close> hands to a callback that always returns true, in the order of
  the walk. Comment groups and the nil that closes the visit of each node are left out: no
  callback of the linter reacts to them.
\<close>

fun Inspect_nodes :: "node \<Rightarrow> node list" where
  "Inspect_nodes (Ident x) = [Ident x]"
| "Inspect_nodes (SelectorExpr x sel) = SelectorExpr x sel # Inspect_nodes x @ [Ident sel]"
| "Inspect_nodes (StarExpr x) = StarExpr x # Inspect_nodes x"
| "Inspect_nodes (ArrayType len elt) =
     ArrayType len elt # (case len of None \<Rightarrow> [] | Some l \<Rightarrow> Inspect_nodes l) @ Inspect_nodes elt"
| "Inspect_nodes (StructType flds) = StructType flds # concat (map Inspect_nodes flds)"
| "Inspect_nodes (CompositeLit ty elts) =
     CompositeLit ty elts # (case ty of None \<Rightarrow> [] | Some t \<Rightarrow> Inspect_nodes t)
       @ concat (map Inspect_nodes elts)"
| "Inspect_nodes (CallExpr f args) = CallExpr f args # Inspect_nodes f @ concat (map Inspect_nodes args)"
| "Inspect_nodes (LocalValueSpec names ty vals) =
     LocalValueSpec names ty vals # map Ident names
       @ (case ty of None \<Rightarrow> [] | Some t \<Rightarrow> Inspect_nodes t) @ concat (map Inspect_nodes vals)"
| "Inspect_nodes (LocalGenDecl specs) = LocalGenDecl specs # concat (map Inspect_nodes specs)"
| "Inspect_nodes (DeclStmt d) = DeclStmt d # Inspect_nodes d"
| "Inspect_nodes (AssignStmt lhs rhs) =
     AssignStmt lhs rhs # concat (map Inspect_nodes lhs) @ concat (map Inspect_nodes rhs)"
| "Inspect_nodes (RangeStmt k v x body) =
     RangeStmt k v x body # (case k of None \<Rightarrow> [] | Some n \<Rightarrow> Inspect_nodes n)
       @ (case v of None \<Rightarrow> [] | Some n \<Rightarrow> Inspect_nodes n) @ Inspect_nodes x @ Inspect_nodes body"
| "Inspect_nodes (BlockStmt stmts) = BlockStmt stmts # concat (map Inspect_nodes stmts)"
| "Inspect_nodes (OtherNode children) = OtherNode children # concat (map Inspect_nodes children)"

text \<open>
  A field of a parameter list: the names declared together (none for an unnamed
  parameter) and their one type.
\<close>

record Field =
  Field_Names :: "string list"
  Field_Type :: node

text \<open>
  A function declaration. \<open>Doc\<close> is \<^verbatim>\<open>fn.Doc.Text()\<close>, and \<open>None\<close> when \<^verbatim>\<open>fn.Doc\<close> is nil.
  \<open>Params\<close> is \<^verbatim>\<open>fn.Type.Params.List\<close>; every use in the linter treats a nil parameter list
  as the empty one. \<^verbatim>\<open>fn.Type\<close> itself is never nil in a tree the parser returns. \<open>Body\<close> is
  \<open>None\<close> for a declaration without a body, which the parser accepts. \<open>FuncPos\<close> is
  \<^verbatim>\<open>fn.Pos()\<close>.
\<close>

record FuncDecl =
  Doc :: "string option"
  Recv :: "Field list option"
  Name :: string
  Params :: "Field list"
  Body :: "node option"
  FuncPos :: nat

datatype Token = token_IMPORT | token_CONST | token_TYPE | token_VAR

text \<open>
  The specs of a top-level declaration: a type spec has a name and its position; a value
  spec has its names with their positions and, when a type is written, the text
  \<^verbatim>\<open>fmt.Sprintf("%s", vs.Type)\<close> gives for it (for a plain identifier, the identifier).
\<close>

datatype Spec =
    ImportSpec
  | TypeSpec string nat
  | ValueSpec "(string \<times> nat) list" "string option"

datatype Decl =
    FuncD FuncDecl
  | GenD Token "Spec list"
  | BadD

record Object =
  Obj_Name :: string
  Obj_Pos :: nat

record File =
  Decls :: "Decl list"
  Scope_Objects :: "string \<rightharpoonup> Object"

subsection \<open>Positions\<close>

text \<open>
  A \<^verbatim>\<open>token.FileSet\<close> is the list of its files; a file has a base, a size and the offsets
  at which its lines start, in increasing order. \<^verbatim>\<open>Position(p).Line\<close> is 0 for the
  position 0 (\<^verbatim>\<open>token.NoPos\<close>) and for a position no file of the set covers; otherwise it is
  the number of lines that start at or before the offset. Line directives are not modelled.
\<close>

record TokFile =
  file_base :: nat
  file_size :: nat
  file_lines :: "nat list"

type_synonym FileSet = "TokFile list"

definition NewFileSet :: FileSet where
  "NewFileSet = []"

definition Position_Line :: "FileSet \<Rightarrow> nat \<Rightarrow> nat" where
  "Position_Line fs p =
     (if p = 0 then 0
      else case find (\<lambda>f. file_base f \<le> p \<and> p \<le> file_base f + file_size f) fs of
             None \<Rightarrow> 0
           | Some f \<Rightarrow> length (filter (\<lambda>off. off \<le> p - file_base f) (file_lines f)))"

section \<open>The rules\<close>

text \<open>
  A Go function that appends to \<^verbatim>\<open>*errs\<close> is modelled by the list of diagnostics it
  appends, in order. A diagnostic is the string \<^verbatim>\<open>fmt.Sprintf\<close> builds.
\<close>

datatype error = NilDereference

subsection \<open>\<^verbatim>\<open>checkStructParameterUsage\<close> and its predicates\<close>

fun isAllowedParam :: "node \<Rightarrow> bool" where
  "isAllowedParam (StarExpr (SelectorExpr x sel)) = (sel = ''T'' \<or> sel = ''DUTDevice'')"
| "isAllowedParam e = False"

definition allParamsAllowed :: "Field list \<Rightarrow> bool" where
  "allParamsAllowed params = list_all (\<lambda>param. isAllowedParam (Field_Type param)) params"

fun isStructType :: "node \<Rightarrow> bool" where
  "isStructType (StructType flds) = True"
| "isStructType e = False"

fun isPointerToStruct :: "node \<Rightarrow> bool" where
  "isPointerToStruct (StarExpr (StructType flds)) = True"
| "isPointerToStruct e = False"

text \<open>The counting loop of \<^verbatim>\<open>checkStructParameterUsage\<close>, over the fields of the list.\<close>

fun nonStructCount :: "Field list \<Rightarrow> nat" where
  "nonStructCount [] = 0"
| "nonStructCount (param # params) =
     (let typ = Field_Type param in
      if isAllowedParam typ then nonStructCount params
      else if \<not> isStructType typ \<and> \<not> isPointerToStruct typ then Suc (nonStructCount params)
      else nonStructCount params)"

definition checkStructParameterUsage :: "string \<Rightarrow> FuncDecl \<Rightarrow> FileSet \<Rightarrow> string list" where
  "checkStructParameterUsage path fn fs =
     (let line = Position_Line fs (FuncPos fn) in
      if Params fn = [] then []
      else if length (Params fn) \<le> 2 \<and> allParamsAllowed (Params fn) then []
      else if nonStructCount (Params fn) > 1 then
        [path @ '':'' @ itoa line @ '': function '' @ Name fn
           @ '' has multiple parameters, consider using a single config struct'']
      else [])"

subsection \<open>\<^verbatim>\<open>validateTestFileStructure\<close>\<close>

fun isTestingM :: "node \<Rightarrow> bool" where
  "isTestingM (StarExpr (SelectorExpr (Ident pkg) sel)) = (pkg = ''testing'' \<and> sel = ''M'')"
| "isTestingM e = False"

text \<open>
  The first loop, with its two variables \<open>hasTestMain\<close> and \<open>testFuncs\<close> as the state.
\<close>

fun testFileLoop :: "Decl list \<Rightarrow> bool \<Rightarrow> FuncDecl list \<Rightarrow> bool \<times> FuncDecl list" where
  "testFileLoop [] hasTestMain testFuncs = (hasTestMain, testFuncs)"
| "testFileLoop (FuncD fn # decls) hasTestMain testFuncs =
     (if Body fn = None then testFileLoop decls hasTestMain testFuncs
      else if Name fn = ''TestMain'' \<and> length (Params fn) = 1 then
        testFileLoop decls (hasTestMain \<or> isTestingM (Field_Type (hd (Params fn)))) testFuncs
      else if HasPrefix (Name fn) ''Test'' then testFileLoop decls hasTestMain (testFuncs @ [fn])
      else testFileLoop decls hasTestMain testFuncs)"
| "testFileLoop (d # decls) hasTestMain testFuncs = testFileLoop decls hasTestMain testFuncs"

fun isSliceLitType :: "node option \<Rightarrow> bool" where
  "isSliceLitType (Some (ArrayType len elt)) = True"
| "isSliceLitType (Some (Ident x)) = True"
| "isSliceLitType (Some (SelectorExpr x sel)) = True"
| "isSliceLitType t = False"

fun isSliceLit :: "node \<Rightarrow> bool" where
  "isSliceLit (CompositeLit ty elts) = isSliceLitType ty"
| "isSliceLit e = False"

fun isArrayType :: "node option \<Rightarrow> bool" where
  "isArrayType (Some (ArrayType len elt)) = True"
| "isArrayType t = False"

fun specHasSlice :: "node \<Rightarrow> bool" where
  "specHasSlice (LocalValueSpec names ty vals) =
     (isArrayType ty \<or> (ty = None \<and> list_ex isSliceLit vals))"
| "specHasSlice s = False"

text \<open>The callback of the second \<^verbatim>\<open>ast.Inspect\<close>: what sets \<open>hasSliceDecl\<close>, what sets \<open>hasForLoop\<close>.\<close>

fun setsSliceDecl :: "node \<Rightarrow> bool" where
  "setsSliceDecl (DeclStmt (LocalGenDecl specs)) = list_ex specHasSlice specs"
| "setsSliceDecl (AssignStmt lhs rhs) = list_ex isSliceLit rhs"
| "setsSliceDecl n = False"

fun setsForLoop :: "node \<Rightarrow> bool" where
  "setsForLoop (RangeStmt k v x body) = True"
| "setsForLoop n = False"

definition hasSliceDecl :: "node \<Rightarrow> bool" where
  "hasSliceDecl body = list_ex setsSliceDecl (Inspect_nodes body)"

definition hasForLoop :: "node \<Rightarrow> bool" where
  "hasForLoop body = list_ex setsForLoop (Inspect_nodes body)"

definition missingTestMain :: "string \<Rightarrow> string" where
  "missingTestMain path = path @ '': missing TestMain function''"

definition multipleTests :: "string \<Rightarrow> string" where
  "multipleTests path = path @ '': multiple top-level test functions found; please follow table-driven approach ref: https://go.dev/wiki/TableDrivenTests''"

definition notTableDriven :: "string \<Rightarrow> string \<Rightarrow> string" where
  "notTableDriven path name = path @ '': test function '' @ name @ '' does not follow table-driven test pattern. Please follow table driven approach ref: https://go.dev/wiki/TableDrivenTests''"

text \<open>
  \<^verbatim>\<open>ast.Inspect\<close> on a nil body dereferences it; the loop above keeps no function without
  a body, and the model still has the branch.
\<close>

definition validateTestFileStructure :: "string \<Rightarrow> File \<Rightarrow> error + string list" where
  "validateTestFileStructure path f =
     (case testFileLoop (Decls f) False [] of (hasTestMain, testFuncs) \<Rightarrow>
        (case testFuncs of
           [] \<Rightarrow> Inr ((if \<not> hasTestMain then [missingTestMain path] else [])
                     @ [path @ '': no test functions found''])
         | mainTest # others \<Rightarrow>
             (case Body mainTest of
                None \<Rightarrow> Inl NilDereference
              | Some body \<Rightarrow>
                  Inr ((if \<not> hasTestMain then [missingTestMain path] else [])
                     @ (if length testFuncs > 1 then [multipleTests path] else [])
                     @ (if \<not> (hasSliceDecl body \<and> hasForLoop body)
                        then [notTableDriven path (Name mainTest)] else [])))))"

subsection \<open>\<^verbatim>\<open>scanFileForPatterns\<close>\<close>

text \<open>The loop over the runes of the arguments of \<^verbatim>\<open>t.Log\<close>, with \<open>inQuotes\<close> as its state.\<close>

fun commaOutsideQuotes :: "bool \<Rightarrow> string \<Rightarrow> bool" where
  "commaOutsideQuotes inQuotes [] = False"
| "commaOutsideQuotes inQuotes (r # rs) =
     (if r = dq then commaOutsideQuotes (\<not> inQuotes) rs
      else if r = CHR '','' \<and> \<not> inQuotes then True
      else commaOutsideQuotes inQuotes rs)"

text \<open>
  The loop that splits the arguments of \<^verbatim>\<open>t.Logf\<close> at the commas outside quotes;
  \<open>cur\<close> is \<^verbatim>\<open>args[start:i]\<close>.
\<close>

fun splitParts :: "bool \<Rightarrow> string \<Rightarrow> string \<Rightarrow> string list" where
  "splitParts inQuotes cur [] = [TrimSpace cur]"
| "splitParts inQuotes cur (r # rs) =
     (if r = dq then splitParts (\<not> inQuotes) (cur @ [r]) rs
      else if r = CHR '','' \<and> \<not> inQuotes then TrimSpace cur # splitParts inQuotes [] rs
      else splitParts inQuotes (cur @ [r]) rs)"

definition notCapitalized :: "string \<Rightarrow> nat \<Rightarrow> string" where
  "notCapitalized path lineNo = path @ '':'' @ itoa lineNo @ '': error string should not be capitalized''"

definition noFinalPeriod :: "string \<Rightarrow> nat \<Rightarrow> string" where
  "noFinalPeriod path lineNo = path @ '':'' @ itoa lineNo @ '': error string should not end with '.'' @ [CHR 0x27]"

definition avoidSleep :: "string \<Rightarrow> nat \<Rightarrow> string" where
  "avoidSleep path lineNo = path @ '':'' @ itoa lineNo @ '': avoid time.Sleep, use gnmi.Watch''"

text \<open>The error-string block of the loop body.\<close>

definition errorStrings :: "string \<Rightarrow> nat \<Rightarrow> string \<Rightarrow> string list" where
  "errorStrings path lineNo line =
     (if Contains line ''t.Errorf('' \<or> Contains line ''t.Error('' \<or> Contains line ''fmt.Errorf('' then
        (case extractStringLiteral line of
           [] \<Rightarrow> []
         | c # cs \<Rightarrow>
             (if HasPrefix (c # cs) (ToUpper1 c) then [notCapitalized path lineNo] else [])
             @ (if HasSuffix (c # cs) ''.'' then [noFinalPeriod path lineNo] else []))
      else [])"

text \<open>The two log blocks of the loop body, for a test file.\<close>

definition logRules :: "string \<Rightarrow> nat \<Rightarrow> string \<Rightarrow> string list" where
  "logRules path lineNo line =
     (if HasSuffix path ''_test.go'' then
        (let trimmed = TrimSpace line in
         (case tLogRe trimmed of
            None \<Rightarrow> []
          | Some args \<Rightarrow>
              if commaOutsideQuotes False args then
                [path @ '':'' @ itoa lineNo @ '': t.Log() should not use multiple arguments: ''
                   @ trimmed @ '', instead use t.Logf()'']
              else [])
         @ (case tLogfRe trimmed of
              None \<Rightarrow> []
            | Some args \<Rightarrow>
                if length (splitParts False [] args) < 2 then
                  [path @ '':'' @ itoa lineNo @ '': t.Logf() must have arguments after format string: ''
                     @ trimmed @ '', instead use t.Log()'']
                else []))
      else [])"

text \<open>One round of the scanning loop.\<close>

definition scanLine :: "string \<Rightarrow> nat \<Rightarrow> string \<Rightarrow> string list" where
  "scanLine path lineNo line =
     (if Contains line ''time.Sleep('' then [avoidSleep path lineNo] else [])
     @ (if Contains path ''cfgplugins'' \<and> Contains line ''func'' \<and> Contains line ''{''
           \<and> \<not> Contains line ''gnmi.SetRequest'' \<and> \<not> Contains line ''gnmi.Batch''
        then [path @ '':'' @ itoa lineNo @ '': cfgplugin function should return gnmi Batch/SetRequest'']
        else [])
     @ (if Contains line [dq, CHR '' '', CHR ''+'', CHR '' '', dq]
        then [path @ '':'' @ itoa lineNo @ '': avoid piecing strings with '+', use fmt.Sprintf or strings.Builder'']
        else [])
     @ errorStrings path lineNo line
     @ logRules path lineNo line"

fun scanLines :: "string \<Rightarrow> nat \<Rightarrow> string list \<Rightarrow> string list" where
  "scanLines path lineNo [] = []"
| "scanLines path lineNo (line # rest) = scanLine path lineNo line @ scanLines path (lineNo + 1) rest"

text \<open>
  The second argument is the list of lines \<^verbatim>\<open>bufio.Scanner\<close> gives for the file at \<open>path\<close>
  (no line of it holds a line feed; none at all when the file cannot be opened).
\<close>

definition scanFileForPatterns :: "string \<Rightarrow> string list \<Rightarrow> string list" where
  "scanFileForPatterns path lines = scanLines path 1 lines"

subsection \<open>\<^verbatim>\<open>checkMixedCaps\<close>\<close>

definition acronymFunc :: "string \<Rightarrow> nat \<Rightarrow> string \<Rightarrow> string" where
  "acronymFunc path line name =
     path @ '':'' @ itoa line @ '': function name '' @ Quote name @ '' has mis-cased acronym (use ID/URL/HTTP)''"

definition acronymType :: "string \<Rightarrow> nat \<Rightarrow> string \<Rightarrow> string" where
  "acronymType path line name =
     path @ '':'' @ itoa line @ '': type name '' @ Quote name @ '' has mis-cased acronym''"

definition acronymVar :: "string \<Rightarrow> nat \<Rightarrow> string \<Rightarrow> string" where
  "acronymVar path line name =
     path @ '':'' @ itoa line @ '': variable name '' @ Quote name @ '' has mis-cased acronym''"

definition mixedCapsFunc :: "(nat \<Rightarrow> bool) \<Rightarrow> string \<Rightarrow> FileSet \<Rightarrow> FuncDecl \<Rightarrow> string list" where
  "mixedCapsFunc upper path fset fn =
     (let name = Name fn; line = Position_Line fset (FuncPos fn) in
      (if snakeCase name then
         [path @ '':'' @ itoa line @ '': function name '' @ Quote name @ '' should not use snake_case'']
       else [])
      @ (if IsExported upper name then
           (if \<not> exportedMixedCaps name then
              [path @ '':'' @ itoa line @ '': exported function name '' @ Quote name @ '' should use MixedCaps'']
            else [])
         else
           (if \<not> unexportedMixedCaps name then
              [path @ '':'' @ itoa line @ '': unexported function name '' @ Quote name @ '' should use mixedCaps'']
            else []))
      @ (if badAcronyms name then [acronymFunc path line name] else []))"

definition mixedCapsType :: "(nat \<Rightarrow> bool) \<Rightarrow> string \<Rightarrow> FileSet \<Rightarrow> string \<Rightarrow> nat \<Rightarrow> string list" where
  "mixedCapsType upper path fset name pos =
     (let line = Position_Line fset pos in
      (if snakeCase name then
         [path @ '':'' @ itoa line @ '': type name '' @ Quote name @ '' should not use snake_case'']
       else [])
      @ (if IsExported upper name \<and> \<not> exportedMixedCaps name then
           [path @ '':'' @ itoa line @ '': exported type name '' @ Quote name @ '' should use MixedCaps'']
         else [])
      @ (if badAcronyms name then [acronymType path line name] else []))"

definition mixedCapsVar :: "(nat \<Rightarrow> bool) \<Rightarrow> string \<Rightarrow> FileSet \<Rightarrow> string \<Rightarrow> nat \<Rightarrow> string list" where
  "mixedCapsVar upper path fset name pos =
     (let line = Position_Line fset pos in
      (if snakeCase name then
         [path @ '':'' @ itoa line @ '': variable name '' @ Quote name @ '' should not use snake_case'']
       else [])
      @ (if IsExported upper name \<and> \<not> exportedMixedCaps name then
           [path @ '':'' @ itoa line @ '': exported var name '' @ Quote name @ '' should use MixedCaps'']
         else [])
      @ (if badAcronyms name then [acronymVar path line name] else []))"

fun mixedCapsSpec :: "(nat \<Rightarrow> bool) \<Rightarrow> string \<Rightarrow> FileSet \<Rightarrow> Spec \<Rightarrow> string list" where
  "mixedCapsSpec upper path fset (TypeSpec name pos) = mixedCapsType upper path fset name pos"
| "mixedCapsSpec upper path fset (ValueSpec names ty) =
     concat (map (\<lambda>ident. mixedCapsVar upper path fset (fst ident) (snd ident)) names)"
| "mixedCapsSpec upper path fset ImportSpec = []"

fun mixedCapsDecl :: "(nat \<Rightarrow> bool) \<Rightarrow> string \<Rightarrow> FileSet \<Rightarrow> Decl \<Rightarrow> string list" where
  "mixedCapsDecl upper path fset (FuncD fn) = mixedCapsFunc upper path fset fn"
| "mixedCapsDecl upper path fset (GenD tok specs) = concat (map (mixedCapsSpec upper path fset) specs)"
| "mixedCapsDecl upper path fset BadD = []"

definition checkMixedCaps :: "(nat \<Rightarrow> bool) \<Rightarrow> string \<Rightarrow> File \<Rightarrow> string list" where
  "checkMixedCaps upper path f =
     (let fset = NewFileSet in concat (map (mixedCapsDecl upper path fset) (Decls f)))"

subsection \<open>\<^verbatim>\<open>validateGoFile\<close>\<close>

definition mustHaveDoc :: "string \<Rightarrow> nat \<Rightarrow> string \<Rightarrow> string" where
  "mustHaveDoc path line name =
     path @ '':'' @ itoa line @ '': exported function '' @ name @ '' must have doc comment''"

definition shouldEndWithPeriod :: "string \<Rightarrow> nat \<Rightarrow> string" where
  "shouldEndWithPeriod path line =
     path @ '':'' @ itoa line @ '': function comment should end with '.'' @ [CHR 0x27]"

text \<open>The documentation block of the loop over the function declarations.\<close>

definition checkDoc :: "(nat \<Rightarrow> bool) \<Rightarrow> string \<Rightarrow> nat \<Rightarrow> FuncDecl \<Rightarrow> string list" where
  "checkDoc upper path line fn =
     (if IsExported upper (Name fn) \<and> \<not> HasPrefix (Name fn) ''Test'' then
        (case Doc fn of
           None \<Rightarrow> [mustHaveDoc path line (Name fn)]
         | Some doc \<Rightarrow>
             (let text = TrimSpace doc in
              if \<not> HasSuffix text ''.'' then [shouldEndWithPeriod path line] else []))
      else [])"

definition checkGetPrefix :: "string \<Rightarrow> nat \<Rightarrow> FuncDecl \<Rightarrow> string list" where
  "checkGetPrefix path line fn =
     (if HasPrefix (Name fn) ''Get'' then
        [path @ '':'' @ itoa line @ '': function '' @ Name fn @ '' should not use Get prefix'']
      else [])"

fun isTestingT :: "node \<Rightarrow> bool" where
  "isTestingT (StarExpr (SelectorExpr (Ident pkg) sel)) = (pkg = ''testing'' \<and> sel = ''T'')"
| "isTestingT e = False"

text \<open>
  The search for \<open>tName\<close>: the first name of the first named parameter of type
  \<^verbatim>\<open>*testing.T\<close>, and the empty string when there is none.
\<close>

fun find_tName :: "Field list \<Rightarrow> string" where
  "find_tName [] = []"
| "find_tName (param # params) =
     (case Field_Names param of
        name # names \<Rightarrow> if isTestingT (Field_Type param) then name else find_tName params
      | [] \<Rightarrow> find_tName params)"

fun isHelperCall :: "string \<Rightarrow> node \<Rightarrow> bool" where
  "isHelperCall tName (CallExpr (SelectorExpr (Ident x) sel) args) = (x = tName \<and> sel = ''Helper'')"
| "isHelperCall tName n = False"

text \<open>
  The helper block. \<^verbatim>\<open>ast.Inspect\<close> is called on \<^verbatim>\<open>fn.Body\<close> without a test for nil: on a
  declaration without a body the walk dereferences the nil block and the program panics.
\<close>

definition checkHelper :: "string \<Rightarrow> nat \<Rightarrow> FuncDecl \<Rightarrow> error + string list" where
  "checkHelper path line fn =
     (if HasSuffix path ''_test.go'' \<and> Recv fn = None \<and> \<not> HasPrefix (Name fn) ''Test'' then
        (let tName = find_tName (Params fn) in
         if tName \<noteq> [] then
           (case Body fn of
              None \<Rightarrow> Inl NilDereference
            | Some body \<Rightarrow>
                if \<not> list_ex (isHelperCall tName) (Inspect_nodes body) then
                  Inr [path @ '':'' @ itoa line @ '': test helper function '' @ Name fn
                         @ '' should call '' @ tName @ ''.Helper()'']
                else Inr [])
         else Inr [])
      else Inr [])"

definition checkFirstLetter :: "string \<Rightarrow> nat \<Rightarrow> FuncDecl \<Rightarrow> string list" where
  "checkFirstLetter path line fn =
     (if HasSuffix path ''_test.go'' \<and> Recv fn = None \<and> \<not> HasPrefix (Name fn) ''Test'' then
        (case Name fn of
           [] \<Rightarrow> []
         | firstChar # cs \<Rightarrow>
             if ToUpper1 firstChar = [firstChar] then
               [path @ '':'' @ itoa line @ '': test function '' @ Name fn
                  @ '' must start with lowercase letter'']
             else [])
      else [])"

text \<open>One round of the loop over the function declarations.\<close>

definition funcRules :: "(nat \<Rightarrow> bool) \<Rightarrow> string \<Rightarrow> FileSet \<Rightarrow> FuncDecl \<Rightarrow> error + string list" where
  "funcRules upper path fs fn =
     (let line = Position_Line fs (FuncPos fn) in
      case checkHelper path line fn of
        Inl e \<Rightarrow> Inl e
      | Inr helperErrs \<Rightarrow>
          Inr (checkDoc upper path line fn @ checkGetPrefix path line fn @ helperErrs
               @ checkFirstLetter path line fn @ checkStructParameterUsage path fn fs))"

fun funcLoop :: "(nat \<Rightarrow> bool) \<Rightarrow> string \<Rightarrow> FileSet \<Rightarrow> Decl list \<Rightarrow> error + string list" where
  "funcLoop upper path fs [] = Inr []"
| "funcLoop upper path fs (FuncD fn # decls) =
     (case funcRules upper path fs fn of
        Inl e \<Rightarrow> Inl e
      | Inr errs \<Rightarrow>
          (case funcLoop upper path fs decls of
             Inl e \<Rightarrow> Inl e
           | Inr rest \<Rightarrow> Inr (errs @ rest)))"
| "funcLoop upper path fs (d # decls) = funcLoop upper path fs decls"

text \<open>
  The loop over \<^verbatim>\<open>f.Scope.Objects\<close>. Go leaves the order in which \<^verbatim>\<open>range\<close> takes the keys
  of a map open, and it changes from run to run: the order of this run is an argument.
\<close>

definition rangeObjects :: "(string \<rightharpoonup> Object) \<Rightarrow> string list \<Rightarrow> Object list" where
  "rangeObjects objects order = List.map_filter objects order"

definition iteration_order :: "(string \<rightharpoonup> Object) \<Rightarrow> string list \<Rightarrow> bool" where
  "iteration_order objects order = (distinct order \<and> set order = dom objects)"

definition underscoreRule :: "string \<Rightarrow> FileSet \<Rightarrow> Object \<Rightarrow> string list" where
  "underscoreRule path fs obj =
     (if Contains (Obj_Name obj) ''_'' then
        [path @ '':'' @ itoa (Position_Line fs (Obj_Pos obj)) @ '': identifier '' @ Obj_Name obj
           @ '' should not contain underscores'']
      else [])"

fun repeatsTypeSpec :: "string \<Rightarrow> FileSet \<Rightarrow> Spec \<Rightarrow> string list" where
  "repeatsTypeSpec path fs (ValueSpec names (Some typeName)) =
     concat (map (\<lambda>name.
       if Contains (ToLower (fst name)) (ToLower typeName) then
         [path @ '':'' @ itoa (Position_Line fs (snd name)) @ '': variable '' @ fst name
            @ '' repeats its type '' @ typeName @ '' in name'']
       else []) names)"
| "repeatsTypeSpec path fs spec = []"

fun repeatsTypeDecl :: "string \<Rightarrow> FileSet \<Rightarrow> Decl \<Rightarrow> string list" where
  "repeatsTypeDecl path fs (GenD token_VAR specs) = concat (map (repeatsTypeSpec path fs) specs)"
| "repeatsTypeDecl path fs decl = []"

text \<open>
  What the linter reads at a path: the result of \<^verbatim>\<open>parser.ParseFile\<close> on a new file set
  (\<open>None\<close> when it returns an error, else the file set and the tree), and the lines of the
  file.
\<close>

record SourceFile =
  parsed :: "(FileSet \<times> File) option"
  text_lines :: "string list"

definition failedParsing :: "string \<Rightarrow> string" where
  "failedParsing path = path @ '': failed parsing''"

definition validateGoFile :: "(nat \<Rightarrow> bool) \<Rightarrow> string \<Rightarrow> SourceFile \<Rightarrow> string list \<Rightarrow> error + string list" where
  "validateGoFile upper path src order =
     (case parsed src of
        None \<Rightarrow> Inr [failedParsing path]
      | Some (fs, f) \<Rightarrow>
          (case (if HasSuffix path ''_test.go'' then validateTestFileStructure path f else Inr []) of
             Inl e \<Rightarrow> Inl e
           | Inr testErrs \<Rightarrow>
               (case funcLoop upper path fs (Decls f) of
                  Inl e \<Rightarrow> Inl e
                | Inr funcErrs \<Rightarrow>
                    Inr (testErrs @ funcErrs
                         @ concat (map (underscoreRule path fs) (rangeObjects (Scope_Objects f) order))
                         @ concat (map (repeatsTypeDecl path fs) (Decls f))
                         @ checkMixedCaps upper path f
                         @ scanFileForPatterns path (text_lines src)))))"

text \<open>
  The walk of \<^verbatim>\<open>main\<close> over the Go files it finds: each is a path, what is read there and
  the iteration order of that call. A panic ends the program.
\<close>

fun validateFiles ::
  "(nat \<Rightarrow> bool) \<Rightarrow> (string \<times> SourceFile \<times> string list) list \<Rightarrow> string list
     \<Rightarrow> error + string list" where
  "validateFiles upper [] errs = Inr errs"
| "validateFiles upper ((path, src, order) # rest) errs =
     (case validateGoFile upper path src order of
        Inl e \<Rightarrow> Inl e
      | Inr new \<Rightarrow> validateFiles upper rest (errs @ new))"

section \<open>Notions used to state the properties\<close>

text \<open>
  A type that \<^verbatim>\<open>checkStructParameterUsage\<close> counts: not exempt, not a struct, not a pointer
  to a struct.
\<close>

definition countedParam :: "node \<Rightarrow> bool" where
  "countedParam typ = (\<not> isAllowedParam typ \<and> \<not> isStructType typ \<and> \<not> isPointerToStruct typ)"

text \<open>
  The parameters of a function one by one, as the specification counts them: a field
  declares one parameter for each of its names, and one when it has no name.
\<close>

definition parameters :: "Field list \<Rightarrow> node list" where
  "parameters params =
     concat (map (\<lambda>param. replicate (max 1 (length (Field_Names param))) (Field_Type param)) params)"

text \<open>A diagnostic of the documentation rule, told by how it ends.\<close>

definition docDiagnostic :: "string \<Rightarrow> bool" where
  "docDiagnostic d =
     (suffix '' must have doc comment'' d
      \<or> suffix ('': function comment should end with '.'' @ [CHR 0x27]) d)"

text \<open>A letter of ASCII.\<close>

definition isLetter :: "char \<Rightarrow> bool" where
  "isLetter c = (isUpperAZ c \<or> isLowerAZ c)"

text \<open>
  The names \<^verbatim>\<open>checkMixedCaps\<close> looks at, in its order: the name of each function, of each
  type spec and of each identifier of a value spec (\<^verbatim>\<open>var\<close> or \<^verbatim>\<open>const\<close>).
\<close>

datatype NameKind = FuncName | TypeName | VarName

fun specNames :: "Spec \<Rightarrow> (NameKind \<times> string) list" where
  "specNames (TypeSpec name pos) = [(TypeName, name)]"
| "specNames (ValueSpec names ty) = map (\<lambda>ident. (VarName, fst ident)) names"
| "specNames ImportSpec = []"

fun declNames :: "Decl \<Rightarrow> (NameKind \<times> string) list" where
  "declNames (FuncD fn) = [(FuncName, Name fn)]"
| "declNames (GenD tok specs) = concat (map specNames specs)"
| "declNames BadD = []"

definition declaredNames :: "File \<Rightarrow> (NameKind \<times> string) list" where
  "declaredNames f = concat (map declNames (Decls f))"

text \<open>The name has \<^verbatim>\<open>Id\<close>, \<^verbatim>\<open>Url\<close> or \<^verbatim>\<open>Http\<close> as a substring, at any position.\<close>

definition hasAcronym :: "string \<Rightarrow> bool" where
  "hasAcronym name = (sublist ''Id'' name \<or> sublist ''Url'' name \<or> sublist ''Http'' name)"

text \<open>The mis-cased-acronym diagnostic of a name, as \<^verbatim>\<open>checkMixedCaps\<close> writes it.\<close>

fun acronymOf :: "string \<Rightarrow> NameKind \<times> string \<Rightarrow> string" where
  "acronymOf path (FuncName, name) = acronymFunc path 0 name"
| "acronymOf path (TypeName, name) = acronymType path 0 name"
| "acronymOf path (VarName, name) = acronymVar path 0 name"

text \<open>A mis-cased-acronym diagnostic, told by how it ends.\<close>

definition acronymDiagnostic :: "string \<Rightarrow> bool" where
  "acronymDiagnostic d =
     (suffix '' has mis-cased acronym'' d
      \<or> suffix '' has mis-cased acronym (use ID/URL/HTTP)'' d)"

text \<open>
  The functions of a file, and among them: the hook (a function with a body, named
  \<^verbatim>\<open>TestMain\<close>, with the one parameter \<^verbatim>\<open>*testing.M\<close>) and the test functions (with a
  body, named with the prefix \<^verbatim>\<open>Test\<close>, other than a \<^verbatim>\<open>TestMain\<close> with exactly one
  parameter).
\<close>

fun declFuncs :: "Decl \<Rightarrow> FuncDecl list" where
  "declFuncs (FuncD fn) = [fn]"
| "declFuncs d = []"

definition funcDecls :: "File \<Rightarrow> FuncDecl list" where
  "funcDecls f = concat (map declFuncs (Decls f))"

definition isTestMainHook :: "FuncDecl \<Rightarrow> bool" where
  "isTestMainHook fn =
     (Body fn \<noteq> None \<and> Name fn = ''TestMain''
      \<and> (case parameters (Params fn) of [typ] \<Rightarrow> isTestingM typ | _ \<Rightarrow> False))"

definition isTestFunction :: "FuncDecl \<Rightarrow> bool" where
  "isTestFunction fn =
     (Body fn \<noteq> None \<and> HasPrefix (Name fn) ''Test''
      \<and> \<not> (Name fn = ''TestMain'' \<and> length (parameters (Params fn)) = 1))"

text \<open>
  The same two notions as the first loop of \<^verbatim>\<open>validateTestFileStructure\<close> decides them,
  by the number of fields of the parameter list.
\<close>

definition setsHasTestMain :: "FuncDecl \<Rightarrow> bool" where
  "setsHasTestMain fn =
     (Body fn \<noteq> None \<and> Name fn = ''TestMain'' \<and> length (Params fn) = 1
      \<and> isTestingM (Field_Type (hd (Params fn))))"

definition collectedTest :: "FuncDecl \<Rightarrow> bool" where
  "collectedTest fn =
     (Body fn \<noteq> None \<and> HasPrefix (Name fn) ''Test''
      \<and> \<not> (Name fn = ''TestMain'' \<and> length (Params fn) = 1))"

text \<open>
  A function on which the helper block of \<^verbatim>\<open>validateGoFile\<close> panics: a function without
  receiver in a test file, not named \<^verbatim>\<open>Test...\<close>, with a named \<^verbatim>\<open>*testing.T\<close> parameter and
  no body.
\<close>

definition nilBodyHelper :: "string \<Rightarrow> FuncDecl \<Rightarrow> bool" where
  "nilBodyHelper path fn =
     (HasSuffix path ''_test.go'' \<and> Recv fn = None \<and> \<not> HasPrefix (Name fn) ''Test''
      \<and> find_tName (Params fn) \<noteq> [] \<and> Body fn = None)"

text \<open>What the helper block appends when it does not panic.\<close>

definition helperErrs :: "string \<Rightarrow> nat \<Rightarrow> FuncDecl \<Rightarrow> string list" where
  "helperErrs path line fn = (case checkHelper path line fn of Inl e \<Rightarrow> [] | Inr errs \<Rightarrow> errs)"

text \<open>
  A diagnostic with a line number begins with the path, a colon and the number; a
  diagnostic about the file as a whole begins with the path, a colon and a space.
\<close>

definition lineDiagnostic :: "string \<Rightarrow> string \<Rightarrow> bool" where
  "lineDiagnostic path d = (\<exists>n t. d = path @ '':'' @ itoa n @ t)"

definition fileDiagnostic :: "string \<Rightarrow> string \<Rightarrow> bool" where
  "fileDiagnostic path d = prefix (path @ '': '') d"

text \<open>
  A function named \<^verbatim>\<open>TestMain\<close> whose parameter list is one field with several names, as
  in \<^verbatim>\<open>TestMain(a, b *testing.M)\<close>: one entry of the list, and more than one parameter.
\<close>

definition groupedTestMain :: "FuncDecl \<Rightarrow> bool" where
  "groupedTestMain fn =
     (Name fn = ''TestMain'' \<and> length (Params fn) = 1 \<and> 1 < length (Field_Names (hd (Params fn))))"

text \<open>
  An order in which a run can take the objects of the file's scope (any, when the file
  does not parse and the loop is not reached).
\<close>

definition run_order :: "SourceFile \<Rightarrow> string list \<Rightarrow> bool" where
  "run_order src order =
     (case parsed src of
        None \<Rightarrow> True
      | Some (fs, f) \<Rightarrow> iteration_order (Scope_Objects f) order)"

text \<open>A diagnostic with a line number that is not one of the documentation rule.\<close>

definition otherDiagnostic :: "string \<Rightarrow> string \<Rightarrow> bool" where
  "otherDiagnostic path d = (lineDiagnostic path d \<and> \<not> docDiagnostic d)"

text \<open>
  What one round of the loop over the functions appends when it does not panic, and what
  \<^verbatim>\<open>validateGoFile\<close> appends for the structure of a test file.
\<close>

definition funcDiagnostics :: "(nat \<Rightarrow> bool) \<Rightarrow> string \<Rightarrow> FileSet \<Rightarrow> FuncDecl \<Rightarrow> string list" where
  "funcDiagnostics upper path fs fn =
     (let line = Position_Line fs (FuncPos fn) in
      checkDoc upper path line fn @ checkGetPrefix path line fn @ helperErrs path line fn
      @ checkFirstLetter path line fn @ checkStructParameterUsage path fn fs)"

definition testFileDiagnostics :: "string \<Rightarrow> File \<Rightarrow> string list" where
  "testFileDiagnostics path f =
     (if HasSuffix path ''_test.go'' then
        (case validateTestFileStructure path f of Inl e \<Rightarrow> [] | Inr errs \<Rightarrow> errs)
      else [])"

section \<open>Properties\<close>

subsection \<open>Parse failures\<close>

text \<open>
  C1, as amended. For a file whose parse fails, \<^verbatim>\<open>validateGoFile\<close> emits the parse-failure
  diagnostic and nothing else: no structural rule runs, and no line-oriented rule either,
  since the function returns before \<^verbatim>\<open>scanFileForPatterns\<close>. The walk goes on with the
  remaining files.
\<close>

theorem C1_parse_failure_only:
  "parsed src = None \<Longrightarrow>
     validateGoFile upper path src order = Inr [path @ '': failed parsing'']
     \<and> validateFiles upper ((path, src, order) # rest) errs
         = validateFiles upper rest (errs @ [path @ '': failed parsing''])"
  by (simp add: validateGoFile_def failedParsing_def)

theorem C1_parse_failure_only_witness:
  "validateGoFile latin1Upper ''bad.go'' \<lparr>parsed = None, text_lines = [''time.Sleep(1)'']\<rparr> []
     = Inr [''bad.go: failed parsing'']
   \<and> validateFiles latin1Upper
         [(''bad.go'', \<lparr>parsed = None, text_lines = [''time.Sleep(1)'']\<rparr>, []),
          (''b.go'', \<lparr>parsed = Some ([], \<lparr>Decls = [], Scope_Objects = Map.empty\<rparr>),
                     text_lines = [''time.Sleep(1)'']\<rparr>, [])] []
       = Inr [''bad.go: failed parsing'', ''b.go:1: avoid time.Sleep, use gnmi.Watch'']"
proof -
  have h: "parsed \<lparr>parsed = None, text_lines = [''time.Sleep(1)'']\<rparr> = None"
    by simp
  have rest:
    "validateFiles latin1Upper
       [(''b.go'', \<lparr>parsed = Some ([], \<lparr>Decls = [], Scope_Objects = Map.empty\<rparr>),
                   text_lines = [''time.Sleep(1)'']\<rparr>, [])]
       ([] @ [''bad.go'' @ '': failed parsing''])
     = Inr [''bad.go: failed parsing'', ''b.go:1: avoid time.Sleep, use gnmi.Watch'']"
    by code_simp
  show ?thesis
    using C1_parse_failure_only [OF h, of latin1Upper "''bad.go''" "[]"
        "[(''b.go'', \<lparr>parsed = Some ([], \<lparr>Decls = [], Scope_Objects = Map.empty\<rparr>),
                     text_lines = [''time.Sleep(1)'']\<rparr>, [])]" "[]"] rest
    by simp
qed

text \<open>
  The claim as stated fails on a malformed file with a sleeping line: the scan of its lines
  would report the line, and the file's diagnostics are the parse failure alone.
\<close>

theorem C1_counterexample:
  "scanFileForPatterns ''bad.go'' [''time.Sleep(1)'']
     = [''bad.go:1: avoid time.Sleep, use gnmi.Watch'']
   \<and> validateGoFile latin1Upper ''bad.go'' \<lparr>parsed = None, text_lines = [''time.Sleep(1)'']\<rparr> []
     = Inr [''bad.go: failed parsing'']"
  by code_simp

subsection \<open>Error strings\<close>

text \<open>
  C3. The claim asks for two diagnostics on the line \<^verbatim>\<open>errors.New("Something failed.")\<close>.
  The scan gives none: the error-string block looks only at lines with \<^verbatim>\<open>t.Errorf(\<close>,
  \<^verbatim>\<open>t.Error(\<close> or \<^verbatim>\<open>fmt.Errorf(\<close>, although the comment of \<^verbatim>\<open>extractStringLiteral\<close>
  names \<^verbatim>\<open>errors.New\<close>. The same literal in \<^verbatim>\<open>fmt.Errorf\<close> gives the two diagnostics.
  A file that parses and holds the call in a variable declaration passes the whole analysis
  without any diagnostic.
\<close>

theorem C3_errors_New_not_checked:
  \<open>scanFileForPatterns ''a.go'' [''errors.New("Something failed.")''] = []
   \<and> scanFileForPatterns ''a.go'' [''fmt.Errorf("Something failed.")'']
       = [''a.go:1: error string should not be capitalized'',
          ''a.go:1: error string should not end with '.'' @ [CHR 0x27]]
   \<and> validateGoFile latin1Upper ''a.go''
         \<lparr>parsed = Some
            ([\<lparr>file_base = 1, file_size = 75, file_lines = [0, 10, 11, 27, 28]\<rparr>],
             \<lparr>Decls = [GenD token_IMPORT [ImportSpec],
                        GenD token_VAR [ValueSpec [(''errFailed'', 33)] None]],
              Scope_Objects = [''errFailed'' \<mapsto> \<lparr>Obj_Name = ''errFailed'', Obj_Pos = 33\<rparr>]\<rparr>),
          text_lines = [''package a'', [], ''import "errors"'', [],
                        ''var errFailed = errors.New("Something failed.")'']\<rparr>
         [''errFailed'']
       = Inr []\<close>
  by code_simp

subsection \<open>The shape of parameter lists\<close>

lemma nonStructCount_filter:
  "nonStructCount params = length (filter (\<lambda>param. countedParam (Field_Type param)) params)"
  by (induction params) (auto simp: countedParam_def Let_def)

lemma allParamsAllowed_count: "allParamsAllowed params \<Longrightarrow> nonStructCount params = 0"
  by (induction params) (auto simp: allParamsAllowed_def Let_def)

lemma nonStructCount_append:
  "nonStructCount (ps @ qs) = nonStructCount ps + nonStructCount qs"
  by (simp add: nonStructCount_filter)

text \<open>
  C9. A parameter whose type is a pointer to a selector with the final name \<^verbatim>\<open>T\<close> or
  \<^verbatim>\<open>DUTDevice\<close> is exempt whatever stands before the dot: taking it out of a parameter list
  changes neither the count of the non-struct parameters nor whether all parameters are
  exempt.
\<close>

theorem C9_any_qualifier:
  "sel = ''T'' \<or> sel = ''DUTDevice'' \<Longrightarrow> Field_Type param = StarExpr (SelectorExpr pkg sel) \<Longrightarrow>
     isAllowedParam (Field_Type param)
     \<and> nonStructCount (before @ param # after) = nonStructCount (before @ after)
     \<and> allParamsAllowed (before @ param # after) = allParamsAllowed (before @ after)"
  by (auto simp: nonStructCount_append allParamsAllowed_def Let_def)

theorem C9_any_qualifier_witness:
  "isAllowedParam (StarExpr (SelectorExpr (Ident ''anypkg'') ''DUTDevice''))
   \<and> nonStructCount
        [\<lparr>Field_Names = [''n''], Field_Type = Ident ''int''\<rparr>,
         \<lparr>Field_Names = [''d''], Field_Type = StarExpr (SelectorExpr (Ident ''anypkg'') ''DUTDevice'')\<rparr>] = 1"
proof -
  let ?d = "\<lparr>Field_Names = [''d''], Field_Type = StarExpr (SelectorExpr (Ident ''anypkg'') ''DUTDevice'')\<rparr>"
  have sel: "''DUTDevice'' = ''T'' \<or> ''DUTDevice'' = ''DUTDevice''"
    by simp
  have ty: "Field_Type ?d = StarExpr (SelectorExpr (Ident ''anypkg'') ''DUTDevice'')"
    by simp
  have one: "nonStructCount ([\<lparr>Field_Names = [''n''], Field_Type = Ident ''int''\<rparr>] @ []) = 1"
    by code_simp
  show ?thesis
    using C9_any_qualifier [OF sel ty, of "[\<lparr>Field_Names = [''n''], Field_Type = Ident ''int''\<rparr>]" "[]"] one
    by simp
qed

subsection \<open>The first character of an error string\<close>

lemma upperAZ_not_lower: "\<not> isLowerAZ c \<Longrightarrow> upperAZ c = c"
proof -
  assume n: "\<not> isLowerAZ c"
  have "list_all isLowerAZ ''abcdefghijklmnopqrstuvwxyz''"
    by code_simp
  then have notin: "c \<notin> set ''abcdefghijklmnopqrstuvwxyz''"
    using n unfolding list_all_iff by blast
  have len: "length ''abcdefghijklmnopqrstuvwxyz'' = length ''ABCDEFGHIJKLMNOPQRSTUVWXYZ''"
    by simp
  have "map_of (zip ''abcdefghijklmnopqrstuvwxyz'' ''ABCDEFGHIJKLMNOPQRSTUVWXYZ'') c = None"
    using notin by (rule iffD2 [OF map_of_zip_is_None [OF len]])
  then show ?thesis
    by (simp only: upperAZ_def option.case)
qed

lemma scanLine_in_scanLines:
  "i < length lines \<Longrightarrow> set (scanLine path (n + i) (lines ! i)) \<subseteq> set (scanLines path n lines)"
proof (induction lines arbitrary: n i)
  case Nil
  then show ?case by simp
next
  case (Cons l ls)
  show ?case
  proof (cases i)
    case 0
    then show ?thesis by simp
  next
    case (Suc j)
    with Cons.prems have "j < length ls" by simp
    from Cons.IH [OF this, of "n + 1"] Suc show ?thesis by auto
  qed
qed

text \<open>
  C10, as amended. For every scanned line that contains \<^verbatim>\<open>t.Error(\<close>, \<^verbatim>\<open>t.Errorf(\<close> or
  \<^verbatim>\<open>fmt.Errorf(\<close> and whose first quoted literal is not empty and begins with an ASCII
  character that is not a letter (a digit, for example), the "error string should not be
  capitalized" diagnostic is emitted for that line.
\<close>

theorem C10_ascii_non_letter:
  "i < length lines \<Longrightarrow>
   Contains (lines ! i) ''t.Error('' \<or> Contains (lines ! i) ''t.Errorf(''
     \<or> Contains (lines ! i) ''fmt.Errorf('' \<Longrightarrow>
   extractStringLiteral (lines ! i) = c # cs \<Longrightarrow> isASCII c \<Longrightarrow> \<not> isLetter c \<Longrightarrow>
     notCapitalized path (i + 1) \<in> set (scanFileForPatterns path lines)"
proof -
  assume i: "i < length lines"
    and call: "Contains (lines ! i) ''t.Error('' \<or> Contains (lines ! i) ''t.Errorf(''
     \<or> Contains (lines ! i) ''fmt.Errorf(''"
    and lit: "extractStringLiteral (lines ! i) = c # cs"
    and ascii: "isASCII c" and letter: "\<not> isLetter c"
  from letter have "upperAZ c = c"
    by (simp add: isLetter_def upperAZ_not_lower)
  with ascii have "HasPrefix (c # cs) (ToUpper1 c)"
    by (simp add: ToUpper1_def HasPrefix_def)
  moreover from call have "Contains (lines ! i) ''t.Errorf('' \<or> Contains (lines ! i) ''t.Error(''
     \<or> Contains (lines ! i) ''fmt.Errorf(''"
    by blast
  ultimately have "errorStrings path (1 + i) (lines ! i)
      = notCapitalized path (1 + i)
        # (if HasSuffix (c # cs) ''.'' then [noFinalPeriod path (1 + i)] else [])"
    unfolding errorStrings_def using lit by simp
  then have "notCapitalized path (1 + i) \<in> set (errorStrings path (1 + i) (lines ! i))"
    by simp
  then have "notCapitalized path (1 + i) \<in> set (scanLine path (1 + i) (lines ! i))"
    by (simp add: scanLine_def)
  with scanLine_in_scanLines [OF i, of path 1] show ?thesis
    by (auto simp: scanFileForPatterns_def)
qed

theorem C10_ascii_non_letter_witness:
  \<open>''a_test.go:2: error string should not be capitalized''
     \<in> set (scanFileForPatterns ''a_test.go'' [''func TestA(t *testing.T) {'', ''t.Error("5 items left")''])\<close>
proof -
  let ?lines = \<open>[''func TestA(t *testing.T) {'', ''t.Error("5 items left")'']\<close>
  have i: "1 < length ?lines"
    by simp
  have call: "Contains (?lines ! 1) ''t.Error('' \<or> Contains (?lines ! 1) ''t.Errorf(''
     \<or> Contains (?lines ! 1) ''fmt.Errorf(''"
    by code_simp
  have lit: "extractStringLiteral (?lines ! 1) = CHR ''5'' # '' items left''"
    by code_simp
  have ascii: "isASCII (CHR ''5'')"
    by code_simp
  have letter: "\<not> isLetter (CHR ''5'')"
    by code_simp
  have msg: "notCapitalized ''a_test.go'' (1 + 1) = ''a_test.go:2: error string should not be capitalized''"
    by code_simp
  show ?thesis
    using C10_ascii_non_letter [OF i call lit ascii letter, of "''a_test.go''"] msg
    by simp
qed

text \<open>
  The claim as stated fails for a first character beyond ASCII that is not a letter. The
  literal below begins with the euro sign, the three bytes E2 82 AC. \<^verbatim>\<open>msg[:1]\<close> is the
  byte E2 alone, its upper case is the replacement character, which is no prefix of the
  literal: the line gets no diagnostic.
\<close>

theorem C10_counterexample:
  \<open>Contains (''t.Error("'' @ [CHR 0xE2, CHR 0x82, CHR 0xAC] @ ''5 missing")'') ''t.Error(''
   \<and> extractStringLiteral (''t.Error("'' @ [CHR 0xE2, CHR 0x82, CHR 0xAC] @ ''5 missing")'')
       = [CHR 0xE2, CHR 0x82, CHR 0xAC] @ ''5 missing''
   \<and> \<not> isLetter (CHR 0xE2)
   \<and> scanFileForPatterns ''a.go'' [''t.Error("'' @ [CHR 0xE2, CHR 0x82, CHR 0xAC] @ ''5 missing")''] = []\<close>
  by code_simp

subsection \<open>The MixedCaps check\<close>

lemma Position_Line_NewFileSet: "Position_Line NewFileSet p = 0"
  by (simp add: Position_Line_def NewFileSet_def)

lemma itoa_0: "itoa 0 = ''0''"
  by code_simp

lemma mixedCapsFunc_line0:
  "d \<in> set (mixedCapsFunc upper path NewFileSet fn) \<Longrightarrow> prefix (path @ '':0: '') d"
  unfolding mixedCapsFunc_def Let_def acronymFunc_def Position_Line_NewFileSet itoa_0
  by (auto split: if_split_asm)

lemma mixedCapsType_line0:
  "d \<in> set (mixedCapsType upper path NewFileSet name pos) \<Longrightarrow> prefix (path @ '':0: '') d"
  unfolding mixedCapsType_def Let_def acronymType_def Position_Line_NewFileSet itoa_0
  by (auto split: if_split_asm)

lemma mixedCapsVar_line0:
  "d \<in> set (mixedCapsVar upper path NewFileSet name pos) \<Longrightarrow> prefix (path @ '':0: '') d"
  unfolding mixedCapsVar_def Let_def acronymVar_def Position_Line_NewFileSet itoa_0
  by (auto split: if_split_asm)

lemma mixedCapsSpec_line0:
  "d \<in> set (mixedCapsSpec upper path NewFileSet spec) \<Longrightarrow> prefix (path @ '':0: '') d"
  by (cases spec) (auto dest: mixedCapsType_line0 mixedCapsVar_line0)

lemma mixedCapsDecl_line0:
  "d \<in> set (mixedCapsDecl upper path NewFileSet decl) \<Longrightarrow> prefix (path @ '':0: '') d"
  by (cases decl) (auto dest: mixedCapsFunc_line0 mixedCapsSpec_line0)

text \<open>
  C8. \<^verbatim>\<open>checkMixedCaps\<close> resolves every position against a file set it has just created,
  which covers no position: the line is 0 whatever the position, and every diagnostic of
  the check begins with the path followed by \<^verbatim>\<open>:0: \<close>.
\<close>

theorem C8_line_zero:
  "(\<forall>p. Position_Line NewFileSet p = 0)
   \<and> (\<forall>d \<in> set (checkMixedCaps upper path f). prefix (path @ '':0: '') d)"
  by (auto simp: Position_Line_NewFileSet checkMixedCaps_def Let_def dest: mixedCapsDecl_line0)

theorem C8_line_zero_witness:
  \<open>Position_Line [\<lparr>file_base = 1, file_size = 100, file_lines = [0, 10, 20]\<rparr>] 12 = 2
   \<and> checkMixedCaps latin1Upper ''a.go''
        \<lparr>Decls = [FuncD \<lparr>Doc = None, Recv = None, Name = ''get_Url'', Params = [],
                          Body = Some (BlockStmt []), FuncPos = 12\<rparr>],
         Scope_Objects = Map.empty\<rparr>
      = [''a.go:0: function name "get_Url" should not use snake_case'',
         ''a.go:0: unexported function name "get_Url" should use mixedCaps'',
         ''a.go:0: function name "get_Url" has mis-cased acronym (use ID/URL/HTTP)'']
   \<and> list_all (prefix (''a.go'' @ '':0: ''))
        [''a.go:0: function name "get_Url" should not use snake_case'',
         ''a.go:0: unexported function name "get_Url" should use mixedCaps'',
         ''a.go:0: function name "get_Url" has mis-cased acronym (use ID/URL/HTTP)'']\<close>
proof -
  let ?f = "\<lparr>Decls = [FuncD \<lparr>Doc = None, Recv = None, Name = ''get_Url'', Params = [],
                          Body = Some (BlockStmt []), FuncPos = 12\<rparr>],
         Scope_Objects = Map.empty\<rparr>"
  have line: "Position_Line [\<lparr>file_base = 1, file_size = 100, file_lines = [0, 10, 20]\<rparr>] 12 = 2"
    by code_simp
  have out: \<open>checkMixedCaps latin1Upper ''a.go'' ?f
      = [''a.go:0: function name "get_Url" should not use snake_case'',
         ''a.go:0: unexported function name "get_Url" should use mixedCaps'',
         ''a.go:0: function name "get_Url" has mis-cased acronym (use ID/URL/HTTP)'']\<close>
    by code_simp
  show ?thesis
    using C8_line_zero [of latin1Upper "''a.go''" ?f] line out
    by (simp only: list_all_iff) simp
qed

lemma MatchAnywhere_prefix: "MatchAnywhere (\<lambda>r. prefix a r) s = sublist a s"
  by (induction s) (auto simp: sublist_Cons_right)

lemma MatchAnywhere_disj:
  "MatchAnywhere (\<lambda>r. p r \<or> q r) s = (MatchAnywhere p s \<or> MatchAnywhere q s)"
  by (induction s) auto

lemma badAcronyms_hasAcronym: "badAcronyms name = hasAcronym name"
  by (simp add: badAcronyms_def hasAcronym_def MatchAnywhere_disj MatchAnywhere_prefix)

lemma acronymDiagnostic_messages:
  "acronymDiagnostic (acronymFunc path n name)"
  "acronymDiagnostic (acronymType path n name)"
  "acronymDiagnostic (acronymVar path n name)"
  "\<not> acronymDiagnostic (path @ '':'' @ line @ kind @ quoted @ '' should not use snake_case'')"
  "\<not> acronymDiagnostic (path @ '':'' @ line @ kind @ quoted @ '' should use MixedCaps'')"
  "\<not> acronymDiagnostic (path @ '':'' @ line @ kind @ quoted @ '' should use mixedCaps'')"
  by (simp_all add: acronymDiagnostic_def acronymFunc_def acronymType_def acronymVar_def
      suffix_to_prefix)

lemma filter_if: "filter P (if b then xs else ys) = (if b then filter P xs else filter P ys)"
  by simp

lemmas filter_messages =
  filter_append filter_if filter.simps acronymDiagnostic_messages
  if_False if_True if_cancel append_Nil append_Nil2

lemma filter_acronym_Func:
  "filter acronymDiagnostic (mixedCapsFunc upper path NewFileSet fn)
     = (if hasAcronym (Name fn) then [acronymFunc path 0 (Name fn)] else [])"
  unfolding mixedCapsFunc_def Let_def Position_Line_NewFileSet badAcronyms_hasAcronym
  by (simp only: filter_messages)

lemma filter_acronym_Type:
  "filter acronymDiagnostic (mixedCapsType upper path NewFileSet name pos)
     = (if hasAcronym name then [acronymType path 0 name] else [])"
  unfolding mixedCapsType_def Let_def Position_Line_NewFileSet badAcronyms_hasAcronym
  by (simp only: filter_messages)

lemma filter_acronym_Var:
  "filter acronymDiagnostic (mixedCapsVar upper path NewFileSet name pos)
     = (if hasAcronym name then [acronymVar path 0 name] else [])"
  unfolding mixedCapsVar_def Let_def Position_Line_NewFileSet badAcronyms_hasAcronym
  by (simp only: filter_messages)

lemma filter_acronym_Vars:
  "filter acronymDiagnostic (concat (map (\<lambda>ident. mixedCapsVar upper path NewFileSet (fst ident) (snd ident)) names))
     = map (acronymOf path) (filter (\<lambda>kn. hasAcronym (snd kn)) (map (\<lambda>ident. (VarName, fst ident)) names))"
  by (induction names) (simp_all add: filter_acronym_Var)

lemma filter_acronym_Spec:
  "filter acronymDiagnostic (mixedCapsSpec upper path NewFileSet spec)
     = map (acronymOf path) (filter (\<lambda>kn. hasAcronym (snd kn)) (specNames spec))"
  by (cases spec) (simp_all add: filter_acronym_Type filter_acronym_Vars)

lemma filter_acronym_Specs:
  "filter acronymDiagnostic (concat (map (mixedCapsSpec upper path NewFileSet) specs))
     = map (acronymOf path) (filter (\<lambda>kn. hasAcronym (snd kn)) (concat (map specNames specs)))"
  by (induction specs) (simp_all add: filter_acronym_Spec)

lemma filter_acronym_Decl:
  "filter acronymDiagnostic (mixedCapsDecl upper path NewFileSet decl)
     = map (acronymOf path) (filter (\<lambda>kn. hasAcronym (snd kn)) (declNames decl))"
  by (cases decl) (simp_all add: filter_acronym_Func filter_acronym_Specs)

lemma filter_acronym_Decls:
  "filter acronymDiagnostic (concat (map (mixedCapsDecl upper path NewFileSet) decls))
     = map (acronymOf path) (filter (\<lambda>kn. hasAcronym (snd kn)) (concat (map declNames decls)))"
  by (induction decls) (simp_all add: filter_acronym_Decl)

text \<open>
  C6. The mis-cased-acronym diagnostics of \<^verbatim>\<open>checkMixedCaps\<close> are, in order, one for each
  declared function, type or variable name that has \<^verbatim>\<open>Id\<close>, \<^verbatim>\<open>Url\<close> or \<^verbatim>\<open>Http\<close> as a
  substring, at any position and with this very casing, and none for any other name.
\<close>

theorem C6_acronym_substring:
  "filter acronymDiagnostic (checkMixedCaps upper path f)
     = map (acronymOf path) (filter (\<lambda>kn. hasAcronym (snd kn)) (declaredNames f))"
  by (simp add: checkMixedCaps_def declaredNames_def filter_acronym_Decls)

theorem C6_acronym_substring_witness:
  \<open>filter acronymDiagnostic
     (checkMixedCaps latin1Upper ''a.go''
        \<lparr>Decls = [FuncD \<lparr>Doc = None, Recv = None, Name = ''CandidIdea'', Params = [],
                          Body = Some (BlockStmt []), FuncPos = 12\<rparr>,
                  GenD token_TYPE [TypeSpec ''HTTPClient'' 40],
                  GenD token_VAR [ValueSpec [(''baseUrl'', 60), (''userID'', 70)] None]],
         Scope_Objects = Map.empty\<rparr>)
   = [''a.go:0: function name "CandidIdea" has mis-cased acronym (use ID/URL/HTTP)'',
      ''a.go:0: variable name "baseUrl" has mis-cased acronym'']\<close>
proof -
  let ?f = "\<lparr>Decls = [FuncD \<lparr>Doc = None, Recv = None, Name = ''CandidIdea'', Params = [],
                          Body = Some (BlockStmt []), FuncPos = 12\<rparr>,
                  GenD token_TYPE [TypeSpec ''HTTPClient'' 40],
                  GenD token_VAR [ValueSpec [(''baseUrl'', 60), (''userID'', 70)] None]],
         Scope_Objects = Map.empty\<rparr>"
  have names: "declaredNames ?f
      = [(FuncName, ''CandidIdea''), (TypeName, ''HTTPClient''), (VarName, ''baseUrl''), (VarName, ''userID'')]"
    by code_simp
  have has: "hasAcronym ''CandidIdea''" "\<not> hasAcronym ''HTTPClient''" "hasAcronym ''baseUrl''"
    "\<not> hasAcronym ''userID''"
    by code_simp+
  have msgs: \<open>acronymFunc ''a.go'' 0 ''CandidIdea''
      = ''a.go:0: function name "CandidIdea" has mis-cased acronym (use ID/URL/HTTP)''\<close>
    \<open>acronymVar ''a.go'' 0 ''baseUrl'' = ''a.go:0: variable name "baseUrl" has mis-cased acronym''\<close>
    by code_simp+
  show ?thesis
    using C6_acronym_substring [of latin1Upper "''a.go''" ?f] names has msgs
    by simp
qed

subsection \<open>Determinism\<close>

lemma mset_rangeObjects:
  assumes "iteration_order objects order1" and "iteration_order objects order2"
  shows "mset (rangeObjects objects order1) = mset (rangeObjects objects order2)"
proof -
  from assms have "distinct order1" "distinct order2" "set order1 = set order2"
    by (simp_all add: iteration_order_def)
  then have "mset order1 = mset order2"
    by (simp add: set_eq_iff_mset_eq_distinct)
  then have "image_mset (the \<circ> objects) (filter_mset (\<lambda>k. objects k \<noteq> None) (mset order1))
      = image_mset (the \<circ> objects) (filter_mset (\<lambda>k. objects k \<noteq> None) (mset order2))"
    by simp
  then show ?thesis
    by (simp add: rangeObjects_def map_filter_def)
qed

lemma mset_concat_map:
  assumes "mset xs = mset ys"
  shows "mset (concat (map g xs)) = mset (concat (map g ys))"
proof -
  have "mset (concat (map g zs)) = sum_mset (image_mset (\<lambda>z. mset (g z)) (mset zs))" for zs
    by (induction zs) simp_all
  with assms show ?thesis
    by simp
qed

text \<open>
  C5. Two runs of \<^verbatim>\<open>validateGoFile\<close> on the same path and the same content give the same
  set of diagnostics, and each diagnostic as many times, whatever the orders in which the
  two runs take the objects of the file's scope; a run that panics does so in both. (As
  lists the two results can differ: the loop over the scope follows the order of the map.)
\<close>

theorem C5_same_diagnostics:
  "run_order src order1 \<Longrightarrow> run_order src order2 \<Longrightarrow>
     map_sum id set (validateGoFile upper path src order1) = map_sum id set (validateGoFile upper path src order2)
     \<and> map_sum id mset (validateGoFile upper path src order1)
         = map_sum id mset (validateGoFile upper path src order2)"
proof -
  assume o1: "run_order src order1" and o2: "run_order src order2"
  have m: "map_sum id mset (validateGoFile upper path src order1)
         = map_sum id mset (validateGoFile upper path src order2)"
  proof (cases "parsed src")
    case None
    then show ?thesis by (simp add: validateGoFile_def)
  next
    case (Some parse)
    obtain fs f where parse: "parse = (fs, f)"
      by (cases parse)
    from o1 o2 Some parse have "iteration_order (Scope_Objects f) order1"
      and "iteration_order (Scope_Objects f) order2"
      by (simp_all add: run_order_def)
    then have
      "mset (rangeObjects (Scope_Objects f) order1) = mset (rangeObjects (Scope_Objects f) order2)"
      by (rule mset_rangeObjects)
    then have "mset (concat (map (underscoreRule path fs) (rangeObjects (Scope_Objects f) order1)))
        = mset (concat (map (underscoreRule path fs) (rangeObjects (Scope_Objects f) order2)))"
      by (rule mset_concat_map)
    then have rest: "mset (testErrs @ funcErrs
          @ concat (map (underscoreRule path fs) (rangeObjects (Scope_Objects f) order1)) @ tail)
        = mset (testErrs @ funcErrs
          @ concat (map (underscoreRule path fs) (rangeObjects (Scope_Objects f) order2)) @ tail)"
      for testErrs funcErrs tail
      by simp
    define testResult where
      "testResult = (if HasSuffix path ''_test.go'' then validateTestFileStructure path f else Inr [])"
    have run: "validateGoFile upper path src order =
        (case testResult of
           Inl e \<Rightarrow> Inl e
         | Inr testErrs \<Rightarrow>
             (case funcLoop upper path fs (Decls f) of
                Inl e \<Rightarrow> Inl e
              | Inr funcErrs \<Rightarrow>
                  Inr (testErrs @ funcErrs
                       @ concat (map (underscoreRule path fs) (rangeObjects (Scope_Objects f) order))
                       @ concat (map (repeatsTypeDecl path fs) (Decls f))
                         @ checkMixedCaps upper path f @ scanFileForPatterns path (text_lines src))))"
      for order
      unfolding validateGoFile_def testResult_def Some parse by simp
    show ?thesis
    proof (cases testResult)
      case (Inl e)
      then show ?thesis
        by (simp add: run)
    next
      case testErrs: (Inr testErrs)
      show ?thesis
      proof (cases "funcLoop upper path fs (Decls f)")
        case (Inl e)
        then show ?thesis
          by (simp add: run testErrs)
      next
        case (Inr funcErrs)
        then show ?thesis
          by (simp only: run testErrs sum.case map_sum.simps rest)
      qed
    qed
  qed
  have "set xs = set_mset (mset xs)" for xs :: "string list"
    by simp
  have s: "map_sum id set r = map_sum id set_mset (map_sum id mset r)" for r :: "error + string list"
    by (cases r) simp_all
  from m show ?thesis
    by (simp only: s)
qed

theorem C5_same_diagnostics_witness:
  "validateGoFile latin1Upper ''a.go''
        \<lparr>parsed = Some
           ([\<lparr>file_base = 1, file_size = 45, file_lines = [0, 10, 29]\<rparr>],
            \<lparr>Decls = [FuncD \<lparr>Doc = None, Recv = None, Name = ''load_cfg'', Params = [],
                              Body = Some (BlockStmt []), FuncPos = 11\<rparr>,
                       GenD token_VAR [ValueSpec [(''max_size'', 34)] None]],
             Scope_Objects = [''load_cfg'' \<mapsto> \<lparr>Obj_Name = ''load_cfg'', Obj_Pos = 16\<rparr>,
                              ''max_size'' \<mapsto> \<lparr>Obj_Name = ''max_size'', Obj_Pos = 34\<rparr>]\<rparr>),
         text_lines = [''package a'', ''func load_cfg() {}'', ''var max_size = 1'']\<rparr>
        [''load_cfg'', ''max_size'']
   \<noteq> validateGoFile latin1Upper ''a.go''
        \<lparr>parsed = Some
           ([\<lparr>file_base = 1, file_size = 45, file_lines = [0, 10, 29]\<rparr>],
            \<lparr>Decls = [FuncD \<lparr>Doc = None, Recv = None, Name = ''load_cfg'', Params = [],
                              Body = Some (BlockStmt []), FuncPos = 11\<rparr>,
                       GenD token_VAR [ValueSpec [(''max_size'', 34)] None]],
             Scope_Objects = [''load_cfg'' \<mapsto> \<lparr>Obj_Name = ''load_cfg'', Obj_Pos = 16\<rparr>,
                              ''max_size'' \<mapsto> \<lparr>Obj_Name = ''max_size'', Obj_Pos = 34\<rparr>]\<rparr>),
         text_lines = [''package a'', ''func load_cfg() {}'', ''var max_size = 1'']\<rparr>
        [''max_size'', ''load_cfg'']
   \<and> map_sum id set
     (validateGoFile latin1Upper ''a.go''
        \<lparr>parsed = Some
           ([\<lparr>file_base = 1, file_size = 45, file_lines = [0, 10, 29]\<rparr>],
            \<lparr>Decls = [FuncD \<lparr>Doc = None, Recv = None, Name = ''load_cfg'', Params = [],
                              Body = Some (BlockStmt []), FuncPos = 11\<rparr>,
                       GenD token_VAR [ValueSpec [(''max_size'', 34)] None]],
             Scope_Objects = [''load_cfg'' \<mapsto> \<lparr>Obj_Name = ''load_cfg'', Obj_Pos = 16\<rparr>,
                              ''max_size'' \<mapsto> \<lparr>Obj_Name = ''max_size'', Obj_Pos = 34\<rparr>]\<rparr>),
         text_lines = [''package a'', ''func load_cfg() {}'', ''var max_size = 1'']\<rparr>
        [''load_cfg'', ''max_size''])
   = map_sum id set
     (validateGoFile latin1Upper ''a.go''
        \<lparr>parsed = Some
           ([\<lparr>file_base = 1, file_size = 45, file_lines = [0, 10, 29]\<rparr>],
            \<lparr>Decls = [FuncD \<lparr>Doc = None, Recv = None, Name = ''load_cfg'', Params = [],
                              Body = Some (BlockStmt []), FuncPos = 11\<rparr>,
                       GenD token_VAR [ValueSpec [(''max_size'', 34)] None]],
             Scope_Objects = [''load_cfg'' \<mapsto> \<lparr>Obj_Name = ''load_cfg'', Obj_Pos = 16\<rparr>,
                              ''max_size'' \<mapsto> \<lparr>Obj_Name = ''max_size'', Obj_Pos = 34\<rparr>]\<rparr>),
         text_lines = [''package a'', ''func load_cfg() {}'', ''var max_size = 1'']\<rparr>
        [''max_size'', ''load_cfg''])"
proof -
  let ?src = "\<lparr>parsed = Some
           ([\<lparr>file_base = 1, file_size = 45, file_lines = [0, 10, 29]\<rparr>],
            \<lparr>Decls = [FuncD \<lparr>Doc = None, Recv = None, Name = ''load_cfg'', Params = [],
                              Body = Some (BlockStmt []), FuncPos = 11\<rparr>,
                       GenD token_VAR [ValueSpec [(''max_size'', 34)] None]],
             Scope_Objects = [''load_cfg'' \<mapsto> \<lparr>Obj_Name = ''load_cfg'', Obj_Pos = 16\<rparr>,
                              ''max_size'' \<mapsto> \<lparr>Obj_Name = ''max_size'', Obj_Pos = 34\<rparr>]\<rparr>),
         text_lines = [''package a'', ''func load_cfg() {}'', ''var max_size = 1'']\<rparr>"
  have o1: "run_order ?src [''load_cfg'', ''max_size'']"
    by (auto simp: run_order_def iteration_order_def)
  have o2: "run_order ?src [''max_size'', ''load_cfg'']"
    by (auto simp: run_order_def iteration_order_def)
  have lists: "validateGoFile latin1Upper ''a.go'' ?src [''load_cfg'', ''max_size'']
      \<noteq> validateGoFile latin1Upper ''a.go'' ?src [''max_size'', ''load_cfg'']"
    by code_simp
  show ?thesis
    using C5_same_diagnostics [OF o1 o2, of latin1Upper "''a.go''"] lists
    by blast
qed

subsection \<open>Counting parameters\<close>

text \<open>
  What \<^verbatim>\<open>checkStructParameterUsage\<close> computes: the diagnostic is emitted exactly when more
  than one field of the parameter list has a counted type, and never for an empty list or
  a list of exempt types.
\<close>

lemma checkStructParameterUsage_fields:
  "checkStructParameterUsage path fn fs =
     (if 1 < length (filter (\<lambda>param. countedParam (Field_Type param)) (Params fn))
      then [path @ '':'' @ itoa (Position_Line fs (FuncPos fn)) @ '': function '' @ Name fn
              @ '' has multiple parameters, consider using a single config struct'']
      else [])"
  using allParamsAllowed_count [of "Params fn"]
  by (auto simp: checkStructParameterUsage_def nonStructCount_filter [symmetric] Let_def)

text \<open>
  C7. The claim counts parameters, and so do the comment and the message of the rule
  ("has multiple parameters"); the loop counts the fields of the parameter list. The two
  differ when several names are declared before one type. \<^verbatim>\<open>func f(a, b int)\<close> has two
  parameters of a type that is neither exempt nor a struct, is one field, and is not
  flagged; the same function written \<^verbatim>\<open>func f(a int, b int)\<close> is flagged.
\<close>

theorem C7_grouped_names_not_flagged:
  "parameters [\<lparr>Field_Names = [''a'', ''b''], Field_Type = Ident ''int''\<rparr>]
     = [Ident ''int'', Ident ''int'']
   \<and> length (filter countedParam
         (parameters [\<lparr>Field_Names = [''a'', ''b''], Field_Type = Ident ''int''\<rparr>])) = 2
   \<and> checkStructParameterUsage ''a.go''
        \<lparr>Doc = None, Recv = None, Name = ''f'',
         Params = [\<lparr>Field_Names = [''a'', ''b''], Field_Type = Ident ''int''\<rparr>],
         Body = Some (BlockStmt []), FuncPos = 11\<rparr>
        [\<lparr>file_base = 1, file_size = 29, file_lines = [0, 10]\<rparr>] = []
   \<and> checkStructParameterUsage ''a.go''
        \<lparr>Doc = None, Recv = None, Name = ''f'',
         Params = [\<lparr>Field_Names = [''a''], Field_Type = Ident ''int''\<rparr>,
                   \<lparr>Field_Names = [''b''], Field_Type = Ident ''int''\<rparr>],
         Body = Some (BlockStmt []), FuncPos = 11\<rparr>
        [\<lparr>file_base = 1, file_size = 33, file_lines = [0, 10]\<rparr>]
       = [''a.go:2: function f has multiple parameters, consider using a single config struct'']"
  by code_simp

subsection \<open>Telling the diagnostics apart\<close>

lemma itoa_digit: "\<exists>c cs. itoa n = c # cs \<and> c \<in> set ''0123456789''"
proof (induction n rule: itoa.induct)
  case (1 n)
  show ?case
  proof (cases "n < 10")
    case True
    then have "''0123456789'' ! n \<in> set ''0123456789''"
      by (intro nth_mem) simp
    with True show ?thesis
      by (subst itoa.simps) (simp only: digit_def if_True list.inject simp_thms ex_simps)
  next
    case False
    with 1 obtain c cs where "itoa (n div 10) = c # cs" and "c \<in> set ''0123456789''"
      by blast
    with False show ?thesis
      by (subst itoa.simps) simp
  qed
qed

lemma lineDiagnosticI: "lineDiagnostic path (path @ '':'' @ itoa n @ t)"
  unfolding lineDiagnostic_def by blast

lemma lineDiagnostic_Cons: "lineDiagnostic path (path @ CHR '':'' # itoa n @ t)"
  using lineDiagnosticI [of path n t] by simp

lemma lineDiagnostic_not_file: "lineDiagnostic path d \<Longrightarrow> \<not> fileDiagnostic path d"
proof -
  assume "lineDiagnostic path d"
  then obtain n t where d: "d = path @ '':'' @ itoa n @ t"
    unfolding lineDiagnostic_def by blast
  obtain c cs where c: "itoa n = c # cs" "c \<in> set ''0123456789''"
    using itoa_digit by blast
  from c(2) have "c \<noteq> CHR '' ''"
    by auto
  with c(1) show ?thesis
    by (simp add: fileDiagnostic_def d)
qed

lemma filter_file_line: "list_all (lineDiagnostic path) ds \<Longrightarrow> filter (fileDiagnostic path) ds = []"
  by (induction ds) (simp_all add: lineDiagnostic_not_file)

lemma filter_doc_other: "list_all (otherDiagnostic path) ds \<Longrightarrow> filter docDiagnostic ds = []"
  by (induction ds) (simp_all add: otherDiagnostic_def)

lemma other_line: "list_all (otherDiagnostic path) ds \<Longrightarrow> list_all (lineDiagnostic path) ds"
  by (induction ds) (simp_all add: otherDiagnostic_def)

lemma list_all_if:
  "list_all P (if b then xs else ys) = (if b then list_all P xs else list_all P ys)"
  by simp

lemma list_all_concat_map: "(\<And>x. list_all P (g x)) \<Longrightarrow> list_all P (concat (map g xs))"
  by (induction xs) simp_all

lemmas list_all_rules =
  list_all_append list_all_if list.pred_inject if_True if_False if_cancel simp_thms

lemma other_messages:
  "otherDiagnostic path (path @ '':'' @ itoa n @ '': function '' @ name @ '' should not use Get prefix'')"
  "otherDiagnostic path (path @ '':'' @ itoa n @ '': test helper function '' @ name
     @ '' should call '' @ tName @ ''.Helper()'')"
  "otherDiagnostic path (path @ '':'' @ itoa n @ '': test function '' @ name
     @ '' must start with lowercase letter'')"
  "otherDiagnostic path (path @ '':'' @ itoa n @ '': function '' @ name
     @ '' has multiple parameters, consider using a single config struct'')"
  "otherDiagnostic path (path @ '':'' @ itoa n @ '': identifier '' @ name
     @ '' should not contain underscores'')"
  "otherDiagnostic path (path @ '':'' @ itoa n @ '': variable '' @ name
     @ '' repeats its type '' @ typeName @ '' in name'')"
  by (simp_all add: otherDiagnostic_def lineDiagnostic_Cons docDiagnostic_def suffix_to_prefix)
lemma list_all_other_GetPrefix: "list_all (otherDiagnostic path) (checkGetPrefix path line fn)"
  unfolding checkGetPrefix_def by (simp only: list_all_rules other_messages)

lemma helperErrs_cases:
  "helperErrs path line fn = [] \<or>
   helperErrs path line fn = [path @ '':'' @ itoa line @ '': test helper function '' @ Name fn
                         @ '' should call '' @ find_tName (Params fn) @ ''.Helper()'']"
  unfolding helperErrs_def checkHelper_def Let_def
  by (cases "Body fn") simp_all

lemma list_all_other_helperErrs: "list_all (otherDiagnostic path) (helperErrs path line fn)"
  using helperErrs_cases [of path line fn]
  by (auto simp only: list_all_rules other_messages)

lemma checkFirstLetter_cases:
  "checkFirstLetter path line fn = [] \<or>
   checkFirstLetter path line fn = [path @ '':'' @ itoa line @ '': test function '' @ Name fn
                  @ '' must start with lowercase letter'']"
  unfolding checkFirstLetter_def by (cases "Name fn") simp_all

lemma list_all_other_FirstLetter: "list_all (otherDiagnostic path) (checkFirstLetter path line fn)"
  using checkFirstLetter_cases [of path line fn]
  by (auto simp only: list_all_rules other_messages)

lemma list_all_other_Struct:
  "list_all (otherDiagnostic path) (checkStructParameterUsage path fn fs)"
  unfolding checkStructParameterUsage_fields by (simp only: list_all_rules other_messages)

lemma docDiagnostic_mustHaveDoc: "docDiagnostic (mustHaveDoc path line name)"
  by (simp add: docDiagnostic_def mustHaveDoc_def suffix_to_prefix)

lemma docDiagnostic_shouldEnd: "docDiagnostic (shouldEndWithPeriod path line)"
  by (simp add: docDiagnostic_def shouldEndWithPeriod_def suffix_to_prefix)

lemma lineDiagnostic_doc:
  "lineDiagnostic path (mustHaveDoc path line name)"
  "lineDiagnostic path (shouldEndWithPeriod path line)"
  unfolding mustHaveDoc_def shouldEndWithPeriod_def by (rule lineDiagnosticI)+

lemma checkDoc_cases:
  "checkDoc upper path line fn = [] \<or> checkDoc upper path line fn = [mustHaveDoc path line (Name fn)]
   \<or> checkDoc upper path line fn = [shouldEndWithPeriod path line]"
  unfolding checkDoc_def Let_def by (cases "Doc fn") simp_all

lemma filter_doc_checkDoc:
  "filter docDiagnostic (checkDoc upper path line fn) = checkDoc upper path line fn"
  using checkDoc_cases [of upper path line fn]
  by (auto simp: docDiagnostic_mustHaveDoc docDiagnostic_shouldEnd)

lemma list_all_line_checkDoc: "list_all (lineDiagnostic path) (checkDoc upper path line fn)"
  using checkDoc_cases [of upper path line fn]
  by (auto simp: lineDiagnostic_doc)

lemma filter_doc_funcDiagnostics:
  "filter docDiagnostic (funcDiagnostics upper path fs fn)
     = checkDoc upper path (Position_Line fs (FuncPos fn)) fn"
  unfolding funcDiagnostics_def Let_def
  by (simp add: filter_doc_checkDoc filter_doc_other [OF list_all_other_GetPrefix]
      filter_doc_other [OF list_all_other_helperErrs] filter_doc_other [OF list_all_other_FirstLetter]
      filter_doc_other [OF list_all_other_Struct])

lemma list_all_line_funcDiagnostics:
  "list_all (lineDiagnostic path) (funcDiagnostics upper path fs fn)"
  unfolding funcDiagnostics_def Let_def
  by (simp add: list_all_line_checkDoc other_line [OF list_all_other_GetPrefix]
      other_line [OF list_all_other_helperErrs] other_line [OF list_all_other_FirstLetter]
      other_line [OF list_all_other_Struct])

lemma list_all_other_underscore: "list_all (otherDiagnostic path) (underscoreRule path fs obj)"
  unfolding underscoreRule_def by (simp only: list_all_rules other_messages)

lemma list_all_other_repeatsTypeSpec: "list_all (otherDiagnostic path) (repeatsTypeSpec path fs spec)"
proof (cases spec)
  case (ValueSpec names ty)
  show ?thesis
  proof (cases ty)
    case None
    with ValueSpec show ?thesis by simp
  next
    case (Some typeName)
    show ?thesis
      unfolding ValueSpec Some repeatsTypeSpec.simps
      by (rule list_all_concat_map) (simp only: list_all_rules other_messages)
  qed
qed simp_all

lemma list_all_other_repeatsTypeDecl: "list_all (otherDiagnostic path) (repeatsTypeDecl path fs decl)"
proof (cases decl)
  case (GenD tok specs)
  then show ?thesis
    by (cases tok) (simp_all add: list_all_concat_map list_all_other_repeatsTypeSpec)
qed simp_all
lemma mixed_messages:
  "otherDiagnostic path (path @ '':'' @ itoa n @ kind @ quoted @ '' should not use snake_case'')"
  "otherDiagnostic path (path @ '':'' @ itoa n @ kind @ quoted @ '' should use MixedCaps'')"
  "otherDiagnostic path (path @ '':'' @ itoa n @ kind @ quoted @ '' should use mixedCaps'')"
  "otherDiagnostic path (acronymFunc path n name)"
  "otherDiagnostic path (acronymType path n name)"
  "otherDiagnostic path (acronymVar path n name)"
  by (simp_all add: otherDiagnostic_def lineDiagnostic_Cons docDiagnostic_def suffix_to_prefix
      acronymFunc_def acronymType_def acronymVar_def)

lemma list_all_other_mixedCapsFunc:
  "list_all (otherDiagnostic path) (mixedCapsFunc upper path fset fn)"
  unfolding mixedCapsFunc_def Let_def by (simp only: list_all_rules mixed_messages)

lemma list_all_other_mixedCapsType:
  "list_all (otherDiagnostic path) (mixedCapsType upper path fset name pos)"
  unfolding mixedCapsType_def Let_def by (simp only: list_all_rules mixed_messages)

lemma list_all_other_mixedCapsVar:
  "list_all (otherDiagnostic path) (mixedCapsVar upper path fset name pos)"
  unfolding mixedCapsVar_def Let_def by (simp only: list_all_rules mixed_messages)

lemma list_all_other_mixedCapsSpec:
  "list_all (otherDiagnostic path) (mixedCapsSpec upper path fset spec)"
  by (cases spec)
    (simp_all add: list_all_other_mixedCapsType list_all_concat_map list_all_other_mixedCapsVar)

lemma list_all_other_mixedCapsDecl:
  "list_all (otherDiagnostic path) (mixedCapsDecl upper path fset decl)"
  by (cases decl)
    (simp_all add: list_all_other_mixedCapsFunc list_all_concat_map list_all_other_mixedCapsSpec)

lemma list_all_other_checkMixedCaps:
  "list_all (otherDiagnostic path) (checkMixedCaps upper path f)"
  unfolding checkMixedCaps_def Let_def
  by (rule list_all_concat_map) (rule list_all_other_mixedCapsDecl)

lemma scan_messages:
  "otherDiagnostic path (avoidSleep path n)"
  "otherDiagnostic path (notCapitalized path n)"
  "otherDiagnostic path (noFinalPeriod path n)"
  "otherDiagnostic path
     (path @ '':'' @ itoa n @ '': cfgplugin function should return gnmi Batch/SetRequest'')"
  "otherDiagnostic path
     (path @ '':'' @ itoa n @ '': avoid piecing strings with '+', use fmt.Sprintf or strings.Builder'')"
  "otherDiagnostic path
     (path @ '':'' @ itoa n @ '': t.Log() should not use multiple arguments: ''
        @ trimmed @ '', instead use t.Logf()'')"
  "otherDiagnostic path
     (path @ '':'' @ itoa n @ '': t.Logf() must have arguments after format string: ''
        @ trimmed @ '', instead use t.Log()'')"
  by (simp_all add: otherDiagnostic_def lineDiagnostic_Cons docDiagnostic_def suffix_to_prefix
      avoidSleep_def notCapitalized_def noFinalPeriod_def)

lemma list_all_other_errorStrings: "list_all (otherDiagnostic path) (errorStrings path n line)"
  unfolding errorStrings_def
  by (cases "extractStringLiteral line") (simp_all only: list.case list_all_rules scan_messages)

lemma list_all_other_logRules: "list_all (otherDiagnostic path) (logRules path n line)"
  unfolding logRules_def Let_def
  by (cases "tLogRe (TrimSpace line)"; cases "tLogfRe (TrimSpace line)")
    (simp_all only: option.case list_all_rules scan_messages)

lemma list_all_other_scanLine: "list_all (otherDiagnostic path) (scanLine path n line)"
  unfolding scanLine_def
  by (simp only: list_all_rules scan_messages list_all_other_errorStrings list_all_other_logRules)

lemma list_all_other_scanLines: "list_all (otherDiagnostic path) (scanLines path n lines)"
  by (induction lines arbitrary: n) (simp_all add: list_all_other_scanLine)

lemma list_all_other_scanFile: "list_all (otherDiagnostic path) (scanFileForPatterns path lines)"
  by (simp add: scanFileForPatterns_def list_all_other_scanLines)
subsection \<open>The analysis of a file, rule by rule\<close>

lemma testFileLoop_collects:
  "testFileLoop decls hasTestMain testFuncs
     = (hasTestMain \<or> list_ex setsHasTestMain (concat (map declFuncs decls)),
        testFuncs @ filter collectedTest (concat (map declFuncs decls)))"
proof (induction decls arbitrary: hasTestMain testFuncs)
  case Nil
  then show ?case by simp
next
  case (Cons d decls)
  show ?case
  proof (cases d)
    case (FuncD fn)
    then show ?thesis
      by (auto simp: Cons.IH setsHasTestMain_def collectedTest_def)
  next
    case (GenD tok specs)
    then show ?thesis by (simp add: Cons.IH)
  next
    case BadD
    then show ?thesis by (simp add: Cons.IH)
  qed
qed

lemma validateTestFileStructure_none:
  "filter collectedTest (funcDecls f) = [] \<Longrightarrow>
     validateTestFileStructure path f
       = Inr ((if \<not> list_ex setsHasTestMain (funcDecls f) then [missingTestMain path] else [])
              @ [path @ '': no test functions found''])"
  by (simp add: validateTestFileStructure_def testFileLoop_collects funcDecls_def)

lemma validateTestFileStructure_some:
  assumes "filter collectedTest (funcDecls f) = mainTest # others"
  shows "\<exists>body. Body mainTest = Some body
     \<and> validateTestFileStructure path f
       = Inr ((if \<not> list_ex setsHasTestMain (funcDecls f) then [missingTestMain path] else [])
              @ (if others \<noteq> [] then [multipleTests path] else [])
              @ (if \<not> (hasSliceDecl body \<and> hasForLoop body)
                 then [notTableDriven path (Name mainTest)] else []))"
proof -
  have "mainTest \<in> set (filter collectedTest (funcDecls f))"
    by (simp add: assms)
  then have "collectedTest mainTest"
    by simp
  then obtain body where body: "Body mainTest = Some body"
    by (auto simp: collectedTest_def)
  have loop: "testFileLoop (Decls f) False []
      = (list_ex setsHasTestMain (funcDecls f), mainTest # others)"
    using assms by (simp add: testFileLoop_collects funcDecls_def)
  have "validateTestFileStructure path f
       = Inr ((if \<not> list_ex setsHasTestMain (funcDecls f) then [missingTestMain path] else [])
              @ (if others \<noteq> [] then [multipleTests path] else [])
              @ (if \<not> (hasSliceDecl body \<and> hasForLoop body)
                 then [notTableDriven path (Name mainTest)] else []))"
    unfolding validateTestFileStructure_def loop by (simp add: body)
  with body show ?thesis
    by blast
qed

lemma test_messages:
  "fileDiagnostic path (missingTestMain path) \<and> \<not> docDiagnostic (missingTestMain path)"
  "fileDiagnostic path (multipleTests path) \<and> \<not> docDiagnostic (multipleTests path)"
  "fileDiagnostic path (notTableDriven path name) \<and> \<not> docDiagnostic (notTableDriven path name)"
  "fileDiagnostic path (path @ '': no test functions found'')
     \<and> \<not> docDiagnostic (path @ '': no test functions found'')"
  by (simp_all add: fileDiagnostic_def docDiagnostic_def suffix_to_prefix missingTestMain_def
      multipleTests_def notTableDriven_def)

lemma list_all_testFileDiagnostics:
  "list_all (\<lambda>d. fileDiagnostic path d \<and> \<not> docDiagnostic d) (testFileDiagnostics path f)"
proof (cases "filter collectedTest (funcDecls f)")
  case Nil
  show ?thesis
    unfolding testFileDiagnostics_def validateTestFileStructure_none [OF Nil]
    by (simp only: sum.case list_all_rules test_messages)
next
  case (Cons mainTest others)
  from validateTestFileStructure_some [OF Cons, of path] obtain body where
    "validateTestFileStructure path f
       = Inr ((if \<not> list_ex setsHasTestMain (funcDecls f) then [missingTestMain path] else [])
              @ (if others \<noteq> [] then [multipleTests path] else [])
              @ (if \<not> (hasSliceDecl body \<and> hasForLoop body)
                 then [notTableDriven path (Name mainTest)] else []))"
    by blast
  then show ?thesis
    unfolding testFileDiagnostics_def
    by (simp only: sum.case list_all_rules test_messages)
qed

lemma validateTestFileStructure_returns:
  "(if HasSuffix path ''_test.go'' then validateTestFileStructure path f else Inr [])
     = Inr (testFileDiagnostics path f)"
proof (cases "filter collectedTest (funcDecls f)")
  case Nil
  show ?thesis
    unfolding testFileDiagnostics_def validateTestFileStructure_none [OF Nil] by simp
next
  case (Cons mainTest others)
  from validateTestFileStructure_some [OF Cons, of path] obtain errs where
    "validateTestFileStructure path f = Inr errs"
    by blast
  then show ?thesis
    unfolding testFileDiagnostics_def by simp
qed

lemma filter_both:
  "list_all (\<lambda>d. P d \<and> \<not> Q d) ds \<Longrightarrow> filter Q ds = [] \<and> filter P ds = ds"
  by (induction ds) simp_all

lemma filter_doc_testFile: "filter docDiagnostic (testFileDiagnostics path f) = []"
  using filter_both [OF list_all_testFileDiagnostics] by blast

lemma filter_file_testFile:
  "filter (fileDiagnostic path) (testFileDiagnostics path f) = testFileDiagnostics path f"
  using filter_both [OF list_all_testFileDiagnostics] by blast

lemma checkHelper_returns:
  "\<not> nilBodyHelper path fn \<Longrightarrow> checkHelper path line fn = Inr (helperErrs path line fn)"
  unfolding helperErrs_def checkHelper_def nilBodyHelper_def Let_def
  by (cases "Body fn") auto

lemma funcRules_returns:
  "\<not> nilBodyHelper path fn \<Longrightarrow> funcRules upper path fs fn = Inr (funcDiagnostics upper path fs fn)"
  by (simp add: funcRules_def funcDiagnostics_def Let_def checkHelper_returns)

lemma funcLoop_returns:
  "\<not> list_ex (nilBodyHelper path) (concat (map declFuncs decls)) \<Longrightarrow>
     funcLoop upper path fs decls
       = Inr (concat (map (funcDiagnostics upper path fs) (concat (map declFuncs decls))))"
proof (induction decls)
  case Nil
  then show ?case by simp
next
  case (Cons d decls)
  then show ?case
    by (cases d) (simp_all add: funcRules_returns)
qed

lemma validateGoFile_returns:
  assumes "parsed src = Some (fs, f)" and "\<not> list_ex (nilBodyHelper path) (funcDecls f)"
  shows "validateGoFile upper path src order
     = Inr (testFileDiagnostics path f
            @ concat (map (funcDiagnostics upper path fs) (funcDecls f))
            @ concat (map (underscoreRule path fs) (rangeObjects (Scope_Objects f) order))
            @ concat (map (repeatsTypeDecl path fs) (Decls f))
            @ checkMixedCaps upper path f
            @ scanFileForPatterns path (text_lines src))"
  using assms(2)
  unfolding validateGoFile_def assms(1) validateTestFileStructure_returns funcDecls_def
  by (simp add: funcLoop_returns)

lemma filter_concat_map:
  "filter P (concat (map g xs)) = concat (map (\<lambda>x. filter P (g x)) xs)"
  by (induction xs) simp_all

subsection \<open>Documentation of exported functions\<close>

lemma filter_doc_engine:
  "filter docDiagnostic
     (testFileDiagnostics path f
      @ concat (map (funcDiagnostics upper path fs) funcs)
      @ concat (map (underscoreRule path fs) objs)
      @ concat (map (repeatsTypeDecl path fs) decls)
      @ checkMixedCaps upper path f
      @ scanFileForPatterns path lines)
   = concat (map (\<lambda>fn. checkDoc upper path (Position_Line fs (FuncPos fn)) fn) funcs)"
proof -
  have "filter docDiagnostic (concat (map (underscoreRule path fs) objs)) = []"
    by (rule filter_doc_other [of path], rule list_all_concat_map, rule list_all_other_underscore)
  moreover have "filter docDiagnostic (concat (map (repeatsTypeDecl path fs) decls)) = []"
    by (rule filter_doc_other [of path], rule list_all_concat_map, rule list_all_other_repeatsTypeDecl)
  moreover have "filter docDiagnostic (checkMixedCaps upper path f) = []"
    by (rule filter_doc_other [of path], rule list_all_other_checkMixedCaps)
  moreover have "filter docDiagnostic (scanFileForPatterns path lines) = []"
    by (rule filter_doc_other [of path], rule list_all_other_scanFile)
  ultimately show ?thesis
    by (simp add: filter_doc_testFile filter_concat_map filter_doc_funcDiagnostics)
qed

text \<open>
  C4, as amended. Take a file that parses and has no helper without a body for the
  analysis to panic on. The documentation diagnostics \<^verbatim>\<open>validateGoFile\<close> emits are, function
  by function and in the order of the file, those of the documentation block, and no other
  rule adds one. For an exported function whose name does not start with \<^verbatim>\<open>Test\<close>, the
  block gives the "must have doc comment" diagnostic, and not the "should end with '.'"
  one, when the function has no doc comment (\<^verbatim>\<open>fn.Doc\<close> is nil), and that diagnostic is in
  the output; it gives nothing when the text of the doc comment, cut of its white space,
  ends with a period.
\<close>

theorem C4_doc_rule:
  assumes "parsed src = Some (fs, f)" and "\<not> list_ex (nilBodyHelper path) (funcDecls f)"
  shows "\<exists>out. validateGoFile upper path src order = Inr out
     \<and> filter docDiagnostic out
         = concat (map (\<lambda>fn. checkDoc upper path (Position_Line fs (FuncPos fn)) fn) (funcDecls f))
     \<and> (\<forall>fn line. IsExported upper (Name fn) \<and> \<not> HasPrefix (Name fn) ''Test'' \<and> Doc fn = None \<longrightarrow>
           checkDoc upper path line fn = [mustHaveDoc path line (Name fn)]
           \<and> shouldEndWithPeriod path line \<notin> set (checkDoc upper path line fn))
     \<and> (\<forall>fn line doc. IsExported upper (Name fn) \<and> \<not> HasPrefix (Name fn) ''Test''
           \<and> Doc fn = Some doc \<and> HasSuffix (TrimSpace doc) ''.'' \<longrightarrow>
           checkDoc upper path line fn = [])
     \<and> (\<forall>fn \<in> set (funcDecls f).
           IsExported upper (Name fn) \<and> \<not> HasPrefix (Name fn) ''Test'' \<and> Doc fn = None \<longrightarrow>
           mustHaveDoc path (Position_Line fs (FuncPos fn)) (Name fn) \<in> set out)"
proof -
  define out where "out = testFileDiagnostics path f
            @ concat (map (funcDiagnostics upper path fs) (funcDecls f))
            @ concat (map (underscoreRule path fs) (rangeObjects (Scope_Objects f) order))
            @ concat (map (repeatsTypeDecl path fs) (Decls f))
            @ checkMixedCaps upper path f
            @ scanFileForPatterns path (text_lines src)"
  have run: "validateGoFile upper path src order = Inr out"
    unfolding out_def using assms by (rule validateGoFile_returns)
  have docs: "filter docDiagnostic out
      = concat (map (\<lambda>fn. checkDoc upper path (Position_Line fs (FuncPos fn)) fn) (funcDecls f))"
    unfolding out_def by (rule filter_doc_engine)
  have missing: "checkDoc upper path line fn = [mustHaveDoc path line (Name fn)]
      \<and> shouldEndWithPeriod path line \<notin> set (checkDoc upper path line fn)"
    if "IsExported upper (Name fn) \<and> \<not> HasPrefix (Name fn) ''Test'' \<and> Doc fn = None"
    for fn line
  proof -
    from that have "checkDoc upper path line fn = [mustHaveDoc path line (Name fn)]"
      by (simp add: checkDoc_def)
    then show ?thesis
      by (simp add: shouldEndWithPeriod_def mustHaveDoc_def)
  qed
  have period: "checkDoc upper path line fn = []"
    if "IsExported upper (Name fn) \<and> \<not> HasPrefix (Name fn) ''Test''
           \<and> Doc fn = Some doc \<and> HasSuffix (TrimSpace doc) ''.''"
    for fn line doc
    using that by (simp add: checkDoc_def)
  have emitted: "mustHaveDoc path (Position_Line fs (FuncPos fn)) (Name fn) \<in> set out"
    if fn: "fn \<in> set (funcDecls f)"
      and "IsExported upper (Name fn) \<and> \<not> HasPrefix (Name fn) ''Test'' \<and> Doc fn = None"
    for fn
  proof -
    from missing [OF that(2)] have
      "mustHaveDoc path (Position_Line fs (FuncPos fn)) (Name fn)
         \<in> set (checkDoc upper path (Position_Line fs (FuncPos fn)) fn)"
      by simp
    with fn have "mustHaveDoc path (Position_Line fs (FuncPos fn)) (Name fn)
         \<in> set (concat (map (\<lambda>fn. checkDoc upper path (Position_Line fs (FuncPos fn)) fn) (funcDecls f)))"
      by auto
    then have "mustHaveDoc path (Position_Line fs (FuncPos fn)) (Name fn) \<in> set (filter docDiagnostic out)"
      by (simp only: docs)
    then show ?thesis
      by simp
  qed
  from run docs missing period emitted show ?thesis
    by blast
qed
theorem C4_doc_rule_witness:
  "validateGoFile latin1Upper ''a.go''
     \<lparr>parsed = Some
        ([\<lparr>file_base = 1, file_size = 57, file_lines = [0, 10, 11, 27, 28, 43]\<rparr>],
         \<lparr>Decls =
            [FuncD \<lparr>Doc = None, Recv = None, Name = ''Start'', Params = [],
                    Body = Some (BlockStmt []), FuncPos = 12\<rparr>,
             FuncD \<lparr>Doc = Some (''Stop stops.'' @ [CHR 0x0A]), Recv = None, Name = ''Stop'',
                    Params = [], Body = Some (BlockStmt []), FuncPos = 44\<rparr>],
          Scope_Objects =
            [''Start'' \<mapsto> \<lparr>Obj_Name = ''Start'', Obj_Pos = 17\<rparr>,
             ''Stop'' \<mapsto> \<lparr>Obj_Name = ''Stop'', Obj_Pos = 49\<rparr>]\<rparr>),
      text_lines = [''package a'', [], ''func Start() {}'', [], ''// Stop stops.'',
                    ''func Stop() {}'']\<rparr>
     [''Start'', ''Stop'']
   = Inr [''a.go:3: exported function Start must have doc comment'']
   \<and> filter docDiagnostic [''a.go:3: exported function Start must have doc comment'']
     = [''a.go:3: exported function Start must have doc comment'']"
proof -
  let ?fs = "[\<lparr>file_base = 1, file_size = 57, file_lines = [0, 10, 11, 27, 28, 43]\<rparr>]"
  let ?f = "\<lparr>Decls =
            [FuncD \<lparr>Doc = None, Recv = None, Name = ''Start'', Params = [],
                    Body = Some (BlockStmt []), FuncPos = 12\<rparr>,
             FuncD \<lparr>Doc = Some (''Stop stops.'' @ [CHR 0x0A]), Recv = None, Name = ''Stop'',
                    Params = [], Body = Some (BlockStmt []), FuncPos = 44\<rparr>],
          Scope_Objects =
            [''Start'' \<mapsto> \<lparr>Obj_Name = ''Start'', Obj_Pos = 17\<rparr>,
             ''Stop'' \<mapsto> \<lparr>Obj_Name = ''Stop'', Obj_Pos = 49\<rparr>]\<rparr>"
  let ?src = "\<lparr>parsed = Some (?fs, ?f),
      text_lines = [''package a'', [], ''func Start() {}'', [], ''// Stop stops.'',
                    ''func Stop() {}'']\<rparr>"
  have parse: "parsed ?src = Some (?fs, ?f)"
    by simp
  have no_panic: "\<not> list_ex (nilBodyHelper ''a.go'') (funcDecls ?f)"
    by code_simp
  have run: "validateGoFile latin1Upper ''a.go'' ?src [''Start'', ''Stop'']
      = Inr [''a.go:3: exported function Start must have doc comment'']"
    by code_simp
  have docs: "concat (map (\<lambda>fn. checkDoc latin1Upper ''a.go'' (Position_Line ?fs (FuncPos fn)) fn)
        (funcDecls ?f))
      = [''a.go:3: exported function Start must have doc comment'']"
    by code_simp
  from C4_doc_rule [OF parse no_panic, of latin1Upper "[''Start'', ''Stop'']"] obtain out where
    "validateGoFile latin1Upper ''a.go'' ?src [''Start'', ''Stop''] = Inr out"
    and "filter docDiagnostic out
         = concat (map (\<lambda>fn. checkDoc latin1Upper ''a.go'' (Position_Line ?fs (FuncPos fn)) fn)
             (funcDecls ?f))"
    by blast
  with run docs show ?thesis
    by simp
qed

text \<open>
  The claim as stated fails for a function whose doc comment is there and has no text, as
  under a bare \<^verbatim>\<open>//\<close> or a directive alone: with no documentation text to speak of, the
  function gets the "should end with '.'" diagnostic and not "must have doc comment".
\<close>

theorem C4_counterexample:
  "validateGoFile latin1Upper ''a.go''
     \<lparr>parsed = Some
        ([\<lparr>file_base = 1, file_size = 29, file_lines = [0, 10, 11, 14]\<rparr>],
         \<lparr>Decls =
            [FuncD \<lparr>Doc = Some [], Recv = None, Name = ''Start'', Params = [],
                    Body = Some (BlockStmt []), FuncPos = 15\<rparr>],
          Scope_Objects = [''Start'' \<mapsto> \<lparr>Obj_Name = ''Start'', Obj_Pos = 20\<rparr>]\<rparr>),
      text_lines = [''package a'', [], ''//'', ''func Start() {}'']\<rparr>
     [''Start'']
   = Inr [''a.go:4: function comment should end with '.'' @ [CHR 0x27]]"
  by code_simp

subsection \<open>The structure of test files\<close>

lemma length_parameters_one:
  "(length (parameters params) = 1)
     = (length params = 1 \<and> length (Field_Names (hd params)) \<le> 1)"
proof (cases params)
  case Nil
  then show ?thesis by (simp add: parameters_def)
next
  case (Cons p ps)
  show ?thesis
  proof (cases ps)
    case Nil
    with Cons show ?thesis by (auto simp: parameters_def)
  next
    case (Cons q qs)
    with \<open>params = p # ps\<close> show ?thesis by (simp add: parameters_def)
  qed
qed

lemma parameters_single:
  "length params = 1 \<Longrightarrow> length (Field_Names (hd params)) \<le> 1 \<Longrightarrow>
     parameters params = [Field_Type (hd params)]"
  by (cases params) (auto simp: parameters_def max_def)

lemma not_single: "length xs \<noteq> 1 \<Longrightarrow> (case xs of [y] \<Rightarrow> P y | _ \<Rightarrow> False) = False"
  by (cases xs) (auto split: list.splits)

lemma collectedTest_isTestFunction:
  "\<not> groupedTestMain fn \<Longrightarrow> collectedTest fn = isTestFunction fn"
  using length_parameters_one [of "Params fn"]
  by (auto simp: groupedTestMain_def collectedTest_def isTestFunction_def)

lemma setsHasTestMain_isTestMainHook:
  assumes "\<not> groupedTestMain fn"
  shows "setsHasTestMain fn = isTestMainHook fn"
proof (cases "Name fn = ''TestMain'' \<and> length (Params fn) = 1")
  case True
  with assms have names: "length (Field_Names (hd (Params fn))) \<le> 1"
    by (simp add: groupedTestMain_def)
  from True have "parameters (Params fn) = [Field_Type (hd (Params fn))]"
    using names by (simp add: parameters_single)
  with True show ?thesis
    by (simp add: setsHasTestMain_def isTestMainHook_def)
next
  case False
  then have "Name fn \<noteq> ''TestMain'' \<or> length (parameters (Params fn)) \<noteq> 1"
    using length_parameters_one [of "Params fn"] by auto
  then have "\<not> isTestMainHook fn"
    by (auto simp: isTestMainHook_def not_single)
  with False show ?thesis
    by (auto simp: setsHasTestMain_def)
qed

lemma ungrouped_tests:
  assumes "\<not> list_ex groupedTestMain funcs"
  shows "filter collectedTest funcs = filter isTestFunction funcs"
    and "list_ex setsHasTestMain funcs = list_ex isTestMainHook funcs"
  using assms
  by (induction funcs) (simp_all add: collectedTest_isTestFunction setsHasTestMain_isTestMainHook)

lemma filter_file_engine:
  "filter (fileDiagnostic path)
     (testFileDiagnostics path f
      @ concat (map (funcDiagnostics upper path fs) funcs)
      @ concat (map (underscoreRule path fs) objs)
      @ concat (map (repeatsTypeDecl path fs) decls)
      @ checkMixedCaps upper path f
      @ scanFileForPatterns path lines)
   = testFileDiagnostics path f"
proof -
  have "filter (fileDiagnostic path) (concat (map (funcDiagnostics upper path fs) funcs)) = []"
    by (rule filter_file_line, rule list_all_concat_map, rule list_all_line_funcDiagnostics)
  moreover have "filter (fileDiagnostic path) (concat (map (underscoreRule path fs) objs)) = []"
    by (rule filter_file_line, rule other_line, rule list_all_concat_map,
        rule list_all_other_underscore)
  moreover have "filter (fileDiagnostic path) (concat (map (repeatsTypeDecl path fs) decls)) = []"
    by (rule filter_file_line, rule other_line, rule list_all_concat_map,
        rule list_all_other_repeatsTypeDecl)
  moreover have "filter (fileDiagnostic path) (checkMixedCaps upper path f) = []"
    by (rule filter_file_line, rule other_line, rule list_all_other_checkMixedCaps)
  moreover have "filter (fileDiagnostic path) (scanFileForPatterns path lines) = []"
    by (rule filter_file_line, rule other_line, rule list_all_other_scanFile)
  ultimately show ?thesis
    by (simp add: filter_file_testFile)
qed

text \<open>
  C2, as amended. Take a test file that parses, has no helper without a body for the
  analysis to panic on, and no \<^verbatim>\<open>TestMain\<close> with several names before a single type. If it
  has no \<^verbatim>\<open>TestMain\<close> hook and two or more top-level functions with a body and a name
  starting with \<^verbatim>\<open>Test\<close> (a \<^verbatim>\<open>TestMain\<close> with exactly one parameter is not counted), then
  the diagnostics \<^verbatim>\<open>validateGoFile\<close> emits about the file as a whole are one "missing
  TestMain", one "multiple top-level test functions" and, since the table-driven check is
  still performed on the first of those functions, the "does not follow table-driven test
  pattern" diagnostic for that function exactly when its body lacks a slice-like
  construction or a range loop.
\<close>

theorem C2_first_test_is_checked:
  assumes "parsed src = Some (fs, f)" and "HasSuffix path ''_test.go''"
    and "\<not> list_ex (nilBodyHelper path) (funcDecls f)"
    and "\<not> list_ex groupedTestMain (funcDecls f)"
    and "filter isTestFunction (funcDecls f) = first # second # others"
    and "\<not> list_ex isTestMainHook (funcDecls f)"
  shows "\<exists>body out. Body first = Some body
     \<and> validateGoFile upper path src order = Inr out
     \<and> filter (fileDiagnostic path) out
         = missingTestMain path # multipleTests path
           # (if hasSliceDecl body \<and> hasForLoop body then []
              else [notTableDriven path (Name first)])"
proof -
  define out where "out = testFileDiagnostics path f
            @ concat (map (funcDiagnostics upper path fs) (funcDecls f))
            @ concat (map (underscoreRule path fs) (rangeObjects (Scope_Objects f) order))
            @ concat (map (repeatsTypeDecl path fs) (Decls f))
            @ checkMixedCaps upper path f
            @ scanFileForPatterns path (text_lines src)"
  have run: "validateGoFile upper path src order = Inr out"
    unfolding out_def using assms(1,3) by (rule validateGoFile_returns)
  have files: "filter (fileDiagnostic path) out = testFileDiagnostics path f"
    unfolding out_def by (rule filter_file_engine)
  have tests: "filter collectedTest (funcDecls f) = first # second # others"
    using ungrouped_tests(1) [OF assms(4)] assms(5) by simp
  have hook: "\<not> list_ex setsHasTestMain (funcDecls f)"
    using ungrouped_tests(2) [OF assms(4)] assms(6) by simp
  from validateTestFileStructure_some [OF tests, of path] obtain body where
    body: "Body first = Some body"
    and "validateTestFileStructure path f
       = Inr ((if \<not> list_ex setsHasTestMain (funcDecls f) then [missingTestMain path] else [])
              @ (if second # others \<noteq> [] then [multipleTests path] else [])
              @ (if \<not> (hasSliceDecl body \<and> hasForLoop body)
                 then [notTableDriven path (Name first)] else []))"
    by blast
  with hook assms(2) have "testFileDiagnostics path f
      = missingTestMain path # multipleTests path
           # (if hasSliceDecl body \<and> hasForLoop body then []
              else [notTableDriven path (Name first)])"
    by (simp add: testFileDiagnostics_def)
  with run files body have result: "Body first = Some body
     \<and> validateGoFile upper path src order = Inr out
     \<and> filter (fileDiagnostic path) out
         = missingTestMain path # multipleTests path
           # (if hasSliceDecl body \<and> hasForLoop body then []
              else [notTableDriven path (Name first)])"
    by simp
  show ?thesis
    by (rule exI [where x = body], rule exI [where x = out], rule result)
qed

theorem C2_first_test_is_checked_witness:
  "validateGoFile latin1Upper ''a_test.go''
     \<lparr>parsed = Some
        ([\<lparr>file_base = 1, file_size = 115, file_lines = [0, 10, 11, 42, 60, 79, 82, 84, 85]\<rparr>],
         \<lparr>Decls =
            [FuncD \<lparr>Doc = None, Recv = None, Name = ''TestAlpha'',
                    Params = [\<lparr>Field_Names = [''t''],
                               Field_Type = StarExpr (SelectorExpr (Ident ''testing'') ''T'')\<rparr>],
                    Body = Some (BlockStmt
                      [AssignStmt [Ident ''cases'']
                         [CompositeLit (Some (ArrayType None (Ident ''int''))) []],
                       RangeStmt None None (Ident ''cases'') (BlockStmt [])]),
                    FuncPos = 12\<rparr>,
             FuncD \<lparr>Doc = None, Recv = None, Name = ''TestBeta'',
                    Params = [\<lparr>Field_Names = [''t''],
                               Field_Type = StarExpr (SelectorExpr (Ident ''testing'') ''T'')\<rparr>],
                    Body = Some (BlockStmt []), FuncPos = 86\<rparr>],
          Scope_Objects =
            [''TestAlpha'' \<mapsto> \<lparr>Obj_Name = ''TestAlpha'', Obj_Pos = 17\<rparr>,
             ''TestBeta'' \<mapsto> \<lparr>Obj_Name = ''TestBeta'', Obj_Pos = 91\<rparr>]\<rparr>),
      text_lines = [''package a'', [], ''func TestAlpha(t *testing.T) {'',
                    CHR 0x09 # ''cases := []int{}'', CHR 0x09 # ''for range cases {'',
                    CHR 0x09 # ''}'', ''}'', [], ''func TestBeta(t *testing.T) {}'']\<rparr>
     [''TestAlpha'', ''TestBeta'']
   = Inr [missingTestMain ''a_test.go'', multipleTests ''a_test.go'']
   \<and> filter (fileDiagnostic ''a_test.go'') [missingTestMain ''a_test.go'', multipleTests ''a_test.go'']
     = [missingTestMain ''a_test.go'', multipleTests ''a_test.go'']"
proof -
  let ?fs = "[\<lparr>file_base = 1, file_size = 115, file_lines = [0, 10, 11, 42, 60, 79, 82, 84, 85]\<rparr>]"
  let ?body = "BlockStmt
                      [AssignStmt [Ident ''cases'']
                         [CompositeLit (Some (ArrayType None (Ident ''int''))) []],
                       RangeStmt None None (Ident ''cases'') (BlockStmt [])]"
  let ?alpha = "\<lparr>Doc = None, Recv = None, Name = ''TestAlpha'',
                    Params = [\<lparr>Field_Names = [''t''],
                               Field_Type = StarExpr (SelectorExpr (Ident ''testing'') ''T'')\<rparr>],
                    Body = Some ?body, FuncPos = 12\<rparr>"
  let ?beta = "\<lparr>Doc = None, Recv = None, Name = ''TestBeta'',
                    Params = [\<lparr>Field_Names = [''t''],
                               Field_Type = StarExpr (SelectorExpr (Ident ''testing'') ''T'')\<rparr>],
                    Body = Some (BlockStmt []), FuncPos = 86\<rparr>"
  let ?f = "\<lparr>Decls = [FuncD ?alpha, FuncD ?beta],
          Scope_Objects =
            [''TestAlpha'' \<mapsto> \<lparr>Obj_Name = ''TestAlpha'', Obj_Pos = 17\<rparr>,
             ''TestBeta'' \<mapsto> \<lparr>Obj_Name = ''TestBeta'', Obj_Pos = 91\<rparr>]\<rparr>"
  let ?src = "\<lparr>parsed = Some (?fs, ?f),
      text_lines = [''package a'', [], ''func TestAlpha(t *testing.T) {'',
                    CHR 0x09 # ''cases := []int{}'', CHR 0x09 # ''for range cases {'',
                    CHR 0x09 # ''}'', ''}'', [], ''func TestBeta(t *testing.T) {}'']\<rparr>"
  have parse: "parsed ?src = Some (?fs, ?f)"
    by simp
  have test_file: "HasSuffix ''a_test.go'' ''_test.go''"
    by code_simp
  have funcs: "funcDecls ?f = [?alpha, ?beta]"
    by (simp add: funcDecls_def)
  have no_panic: "\<not> nilBodyHelper ''a_test.go'' ?alpha" "\<not> nilBodyHelper ''a_test.go'' ?beta"
    by code_simp+
  have ungrouped: "\<not> groupedTestMain ?alpha" "\<not> groupedTestMain ?beta"
    by code_simp+
  have is_test: "isTestFunction ?alpha" "isTestFunction ?beta"
    by code_simp+
  have no_hook: "\<not> isTestMainHook ?alpha" "\<not> isTestMainHook ?beta"
    by code_simp+
  have h3: "\<not> list_ex (nilBodyHelper ''a_test.go'') (funcDecls ?f)"
    by (simp only: funcs list_ex_Cons_iff list_ex_Nil_iff no_panic simp_thms)
  have h4: "\<not> list_ex groupedTestMain (funcDecls ?f)"
    by (simp only: funcs list_ex_Cons_iff list_ex_Nil_iff ungrouped simp_thms)
  have h5: "filter isTestFunction (funcDecls ?f) = ?alpha # ?beta # []"
    by (simp only: funcs filter.simps is_test if_True)
  have h6: "\<not> list_ex isTestMainHook (funcDecls ?f)"
    by (simp only: funcs list_ex_Cons_iff list_ex_Nil_iff no_hook simp_thms)
  have shape: "hasSliceDecl ?body \<and> hasForLoop ?body"
    by code_simp
  have run: "validateGoFile latin1Upper ''a_test.go'' ?src [''TestAlpha'', ''TestBeta'']
      = Inr [missingTestMain ''a_test.go'', multipleTests ''a_test.go'']"
    by code_simp
  from C2_first_test_is_checked [OF parse test_file h3 h4 h5 h6, of latin1Upper
      "[''TestAlpha'', ''TestBeta'']"]
  obtain body out where "Body ?alpha = Some body"
    and "validateGoFile latin1Upper ''a_test.go'' ?src [''TestAlpha'', ''TestBeta''] = Inr out"
    and "filter (fileDiagnostic ''a_test.go'') out
         = missingTestMain ''a_test.go'' # multipleTests ''a_test.go''
           # (if hasSliceDecl body \<and> hasForLoop body then []
              else [notTableDriven ''a_test.go'' (Name ?alpha)])"
    by blast
  with run shape show ?thesis
    by simp
qed

text \<open>
  The claim as stated fails on the file with the two tests \<^verbatim>\<open>TestAlpha\<close> and \<^verbatim>\<open>TestBeta\<close>,
  both with an empty body: the analysis of the file reports that \<^verbatim>\<open>TestAlpha\<close> does not
  follow the table-driven pattern.
\<close>

theorem C2_counterexample:
  "validateGoFile latin1Upper ''a_test.go''
     \<lparr>parsed = Some
        ([\<lparr>file_base = 1, file_size = 74, file_lines = [0, 10, 11, 43, 44]\<rparr>],
         \<lparr>Decls =
            [FuncD \<lparr>Doc = None, Recv = None, Name = ''TestAlpha'',
                    Params = [\<lparr>Field_Names = [''t''],
                               Field_Type = StarExpr (SelectorExpr (Ident ''testing'') ''T'')\<rparr>],
                    Body = Some (BlockStmt []), FuncPos = 12\<rparr>,
             FuncD \<lparr>Doc = None, Recv = None, Name = ''TestBeta'',
                    Params = [\<lparr>Field_Names = [''t''],
                               Field_Type = StarExpr (SelectorExpr (Ident ''testing'') ''T'')\<rparr>],
                    Body = Some (BlockStmt []), FuncPos = 45\<rparr>],
          Scope_Objects =
            [''TestAlpha'' \<mapsto> \<lparr>Obj_Name = ''TestAlpha'', Obj_Pos = 17\<rparr>,
             ''TestBeta'' \<mapsto> \<lparr>Obj_Name = ''TestBeta'', Obj_Pos = 50\<rparr>]\<rparr>),
      text_lines = [''package a'', [], ''func TestAlpha(t *testing.T) {}'', [],
                    ''func TestBeta(t *testing.T) {}'']\<rparr>
     [''TestAlpha'', ''TestBeta'']
   = Inr [''a_test.go: missing TestMain function'',
          ''a_test.go: multiple top-level test functions found; please follow table-driven approach ref: https://go.dev/wiki/TableDrivenTests'',
          ''a_test.go: test function TestAlpha does not follow table-driven test pattern. Please follow table driven approach ref: https://go.dev/wiki/TableDrivenTests'']"
  by code_simp

end
